theory Spec2Isabelle
  imports Main "HOL-Library.AList"
begin

section \<open>Exceptions and results\<close>

text \<open>
  The helpers of \<^verbatim>\<open>providers_script.py\<close> contain no \<^verbatim>\<open>try\<close>, \<^verbatim>\<open>raise\<close> or
  \<^verbatim>\<open>except\<close>. Every exception comes from below: from a property or a method of an SDK
  object, from an attribute read on a value that lacks the attribute, from a subscript with
  a missing key, or from a subscript on a value that has none. A computation therefore
  yields either the exception it raised (\<open>Inl\<close>) or its value (\<open>Inr\<close>).
\<close>

datatype exc = AttributeError | KeyError | TypeError | SdkError string

type_synonym 'a result = "exc + 'a"

definition and_then :: "'a result \<Rightarrow> ('a \<Rightarrow> 'b result) \<Rightarrow> 'b result" where
  "and_then r f = (case r of Inl e \<Rightarrow> Inl e | Inr x \<Rightarrow> f x)"

text \<open>
  The exception of a result, if it is one, and the first exception of a sequence of
  outcomes listed in the order in which the source evaluates them.
\<close>

definition raised :: "'a result \<Rightarrow> exc option" where
  "raised r = (case r of Inl e \<Rightarrow> Some e | Inr x \<Rightarrow> None)"

fun first_raised :: "exc option list \<Rightarrow> exc option" where
  "first_raised [] = None"
| "first_raised (None # rs) = first_raised rs"
| "first_raised (Some e # rs) = Some e"

section \<open>Dictionaries\<close>

text \<open>
  A Python \<^verbatim>\<open>dict\<close> (and the SDK's mapping classes) is an association list in insertion
  order. \<^verbatim>\<open>d.keys()\<close> enumerates the keys in that order, \<^verbatim>\<open>d[k]\<close> raises \<^verbatim>\<open>KeyError\<close> for a
  missing key, and \<^verbatim>\<open>d[k] = v\<close> replaces the value of a present key in place and appends
  an absent one, which is \<^const>\<open>AList.update\<close>.
\<close>

definition keys :: "('k \<times> 'v) list \<Rightarrow> 'k list" where
  "keys d = map fst d"

definition getitem :: "('k \<times> 'v) list \<Rightarrow> 'k \<Rightarrow> 'v result" where
  "getitem d k = (case map_of d k of None \<Rightarrow> Inl KeyError | Some v \<Rightarrow> Inr v)"

definition setitem :: "('k \<times> 'v) list \<Rightarrow> 'k \<Rightarrow> 'v \<Rightarrow> ('k \<times> 'v) list" where
  "setitem d k v = AList.update k v d"

section \<open>SDK objects\<close>

text \<open>
  \<open>'o\<close> is the type of the values the script only passes on or prints (floats, dates,
  coupling maps, lists of operation names, schedule maps, noise models); \<open>'q\<close> is the type
  of the keys of the inner mappings of a target (tuples of qubit indices).

  An \<^verbatim>\<open>InstructionProperties\<close> object has the fields \<^verbatim>\<open>duration\<close> and \<^verbatim>\<open>error\<close>, each a
  float or \<^verbatim>\<open>None\<close>. A target is a mapping from gate names to mappings from qubit tuples to
  such an object or \<^verbatim>\<open>None\<close>.
\<close>

record 'o props =
  duration :: "'o option"
  error :: "'o option"

type_synonym ('q, 'o) target = "(string \<times> ('q \<times> 'o props option) list) list"

text \<open>
  Reading \<^verbatim>\<open>.duration\<close> or \<^verbatim>\<open>.error\<close> of a target entry: on \<^verbatim>\<open>None\<close> Python raises
  \<^verbatim>\<open>AttributeError\<close>.
\<close>

definition attr_duration :: "'o props option \<Rightarrow> 'o option result" where
  "attr_duration entry = (case entry of None \<Rightarrow> Inl AttributeError | Some p \<Rightarrow> Inr (duration p))"

definition attr_error :: "'o props option \<Rightarrow> 'o option result" where
  "attr_error entry = (case entry of None \<Rightarrow> Inl AttributeError | Some p \<Rightarrow> Inr (error p))"

text \<open>
  The attributes of a backend are properties of the SDK class: reading one runs SDK code,
  which returns a value or raises. Each field holds the outcome of reading that attribute.
\<close>

record ('q, 'o) backend =
  name :: "string result"
  backend_version :: "'o result"
  online_date :: "'o result"
  dt :: "'o result"
  dtm :: "'o result"
  max_circuits :: "'o result"
  num_qubits :: "'o result"
  coupling_map :: "'o result"
  operation_names :: "'o result"
  instruction_durations :: "'o result"
  instruction_schedule_map :: "'o result"
  target :: "('q, 'o) target result"

text \<open>A provider is known by what its method \<^verbatim>\<open>backends()\<close> returns or raises.\<close>

record ('q, 'o) provider =
  backends :: "('q, 'o) backend list result"

text \<open>
  The values of the dictionary built by \<^verbatim>\<open>get_backend_info\<close>: a string (the name), a
  target, or one of the other SDK values.
\<close>

datatype ('q, 'o) pyval = PStr string | PObj 'o | PTarget "('q, 'o) target"

type_synonym ('q, 'o) backend_info = "(string \<times> ('q, 'o) pyval) list"

text \<open>
  An \<^verbatim>\<open>Options\<close> object of the runtime SDK, with the fields the script assigns and one
  field for all the others. \<^verbatim>\<open>simulator\<close> holds either the object the constructor put
  there or the dictionary \<^verbatim>\<open>create_options\<close> assigns.
\<close>

record 'o execution_options =
  shots :: "int option"
  other_execution :: 'o

datatype 'o simulator_setting = SimulatorOptions 'o | SimulatorDict "(string \<times> 'o) list"

record 'o options =
  optimization_level :: "int option"
  resilience_level :: "int option"
  execution :: "'o execution_options"
  simulator :: "'o simulator_setting"
  other_options :: 'o

text \<open>
  What the helpers call in the SDK and in Python's built-ins: the constructor
  \<^verbatim>\<open>Options()\<close>, \<^verbatim>\<open>NoiseModel.from_backend\<close>, the method \<^verbatim>\<open>draw()\<close> of a coupling map, and
  \<^verbatim>\<open>str()\<close> of the values that are printed.
\<close>

record ('q, 'o) sdk =
  Options :: "'o options result"
  from_backend :: "('q, 'o) backend \<Rightarrow> 'o result"
  draw :: "'o \<Rightarrow> 'o result"
  str_obj :: "'o \<Rightarrow> string"
  str_qargs :: "'q \<Rightarrow> string"
  str_target :: "('q, 'o) target \<Rightarrow> string"

section \<open>\<^verbatim>\<open>search_backend\<close>\<close>

text \<open>
  \<^verbatim>\<open>
  searched_backend = None
  for backend in provider.backends():
      if backend.name == searched_backend_name:
          searched_backend = backend
  return searched_backend
  \<close>
  \<open>search_loop\<close> is the loop, with the variable \<^verbatim>\<open>searched_backend\<close> as its accumulator.
\<close>

fun search_loop ::
  "('q, 'o) backend list \<Rightarrow> string \<Rightarrow> ('q, 'o) backend option \<Rightarrow> ('q, 'o) backend option result"
where
  "search_loop [] searched_backend_name searched_backend = Inr searched_backend"
| "search_loop (b # bs) searched_backend_name searched_backend =
     and_then (name b) (\<lambda>n.
       search_loop bs searched_backend_name
         (if n = searched_backend_name then Some b else searched_backend))"

definition search_backend ::
  "('q, 'o) provider \<Rightarrow> string \<Rightarrow> ('q, 'o) backend option result"
where
  "search_backend provider searched_backend_name =
     and_then (backends provider) (\<lambda>bs. search_loop bs searched_backend_name None)"

section \<open>\<^verbatim>\<open>get_backend_info\<close>\<close>

text \<open>
  The dictionary display reads the twelve attributes from top to bottom; the first read
  that raises ends the function.
\<close>

definition get_backend_info :: "('q, 'o) backend \<Rightarrow> ('q, 'o) backend_info result" where
  "get_backend_info backend =
     and_then (name backend) (\<lambda>v1.
     and_then (backend_version backend) (\<lambda>v2.
     and_then (online_date backend) (\<lambda>v3.
     and_then (dt backend) (\<lambda>v4.
     and_then (dtm backend) (\<lambda>v5.
     and_then (max_circuits backend) (\<lambda>v6.
     and_then (num_qubits backend) (\<lambda>v7.
     and_then (coupling_map backend) (\<lambda>v8.
     and_then (operation_names backend) (\<lambda>v9.
     and_then (instruction_durations backend) (\<lambda>v10.
     and_then (instruction_schedule_map backend) (\<lambda>v11.
     and_then (target backend) (\<lambda>v12.
       Inr [(''name'', PStr v1),
            (''version'', PObj v2),
            (''online_date'', PObj v3),
            (''syst_time_resolution_input_signals'', PObj v4),
            (''syst_time_resolution_output_signals'', PObj v5),
            (''max_circuits_per_job'', PObj v6),
            (''num_qubits'', PObj v7),
            (''coupling_map'', PObj v8),
            (''operation_names'', PObj v9),
            (''instruction_durations'', PObj v10),
            (''instruction_schedule_map'', PObj v11),
            (''target'', PTarget v12)]))))))))))))"

section \<open>\<^verbatim>\<open>get_gate_errors\<close>\<close>

text \<open>
  \<^verbatim>\<open>
  gate_errors = dict()
  for gate in backend.target.keys():
      gate_errors[gate] = dict()
      for qbits in backend.target[gate].keys():
          if backend.target[gate][qbits] != None and backend.target[gate][qbits] != None:
              gate_errors[gate][qbits] = backend.target[gate][qbits].error
          else:
              gate_errors[gate][qbits] = None
  return gate_errors
  \<close>
  Every occurrence of \<^verbatim>\<open>backend.target[gate][qbits]\<close> reads the property and subscripts
  twice again; \<^verbatim>\<open>and\<close> evaluates its right operand only when the left one holds.
\<close>

definition target_gate :: "('q, 'o) backend \<Rightarrow> string \<Rightarrow> ('q \<times> 'o props option) list result" where
  "target_gate backend gate = and_then (target backend) (\<lambda>t. getitem t gate)"

definition target_entry :: "('q, 'o) backend \<Rightarrow> string \<Rightarrow> 'q \<Rightarrow> 'o props option result" where
  "target_entry backend gate qbits = and_then (target_gate backend gate) (\<lambda>m. getitem m qbits)"

type_synonym ('q, 'o) gate_errors = "(string \<times> ('q \<times> 'o option) list) list"

text \<open>The assignment \<^verbatim>\<open>gate_errors[gate][qbits] = v\<close>.\<close>

definition set_gate_error ::
  "('q, 'o) gate_errors \<Rightarrow> string \<Rightarrow> 'q \<Rightarrow> 'o option \<Rightarrow> ('q, 'o) gate_errors result"
where
  "set_gate_error gate_errors gate qbits v =
     and_then (getitem gate_errors gate) (\<lambda>inner.
       Inr (setitem gate_errors gate (setitem inner qbits v)))"

fun qbits_loop ::
  "('q, 'o) backend \<Rightarrow> string \<Rightarrow> 'q list \<Rightarrow> ('q, 'o) gate_errors \<Rightarrow> ('q, 'o) gate_errors result"
where
  "qbits_loop backend gate [] gate_errors = Inr gate_errors"
| "qbits_loop backend gate (qbits # rest) gate_errors =
     and_then (target_entry backend gate qbits) (\<lambda>e1.
     and_then (if e1 \<noteq> None
               then and_then (target_entry backend gate qbits) (\<lambda>e2. Inr (e2 \<noteq> None))
               else Inr False) (\<lambda>both.
     and_then (if both
               then and_then (target_entry backend gate qbits) (\<lambda>e3.
                    and_then (attr_error e3) (\<lambda>v.
                      set_gate_error gate_errors gate qbits v))
               else set_gate_error gate_errors gate qbits None) (\<lambda>gate_errors'.
       qbits_loop backend gate rest gate_errors')))"

fun gate_loop ::
  "('q, 'o) backend \<Rightarrow> string list \<Rightarrow> ('q, 'o) gate_errors \<Rightarrow> ('q, 'o) gate_errors result"
where
  "gate_loop backend [] gate_errors = Inr gate_errors"
| "gate_loop backend (gate # rest) gate_errors =
     (let gate_errors1 = setitem gate_errors gate [] in
      and_then (target_gate backend gate) (\<lambda>m.
      and_then (qbits_loop backend gate (keys m) gate_errors1) (\<lambda>gate_errors2.
        gate_loop backend rest gate_errors2)))"

definition get_gate_errors :: "('q, 'o) backend \<Rightarrow> ('q, 'o) gate_errors result" where
  "get_gate_errors backend =
     and_then (target backend) (\<lambda>t. gate_loop backend (keys t) [])"

section \<open>\<^verbatim>\<open>create_options\<close>\<close>

text \<open>
  \<^verbatim>\<open>
  options = Options()
  options.execution.shots = nb_shots
  options.optimization_level = 0
  options.resilience_level = 0
  if backend != None:
      options.simulator = {
          "noise_model": NoiseModel.from_backend(backend),
          "basis_gates": backend.operation_names,
          "coupling_map": backend.coupling_map }
  return options
  \<close>
  The parameter \<^verbatim>\<open>backend\<close> defaults to \<^verbatim>\<open>None\<close>.
\<close>

definition create_options ::
  "('q, 'o) sdk \<Rightarrow> int \<Rightarrow> ('q, 'o) backend option \<Rightarrow> 'o options result"
where
  "create_options sdk nb_shots backend =
     and_then (Options sdk) (\<lambda>options0.
       let options1 = options0\<lparr>execution := (execution options0)\<lparr>shots := Some nb_shots\<rparr>\<rparr>;
           options2 = options1\<lparr>optimization_level := Some 0\<rparr>;
           options3 = options2\<lparr>resilience_level := Some 0\<rparr>
       in (case backend of
             Some b \<Rightarrow>
               and_then (from_backend sdk b) (\<lambda>noise_model.
               and_then (operation_names b) (\<lambda>basis_gates.
               and_then (coupling_map b) (\<lambda>cmap.
                 Inr (options3\<lparr>simulator := SimulatorDict
                        [(''noise_model'', noise_model),
                         (''basis_gates'', basis_gates),
                         (''coupling_map'', cmap)]\<rparr>))))
           | None \<Rightarrow> Inr options3))"

section \<open>\<^verbatim>\<open>print_backend_info\<close>\<close>

text \<open>
  Standard output is the list of the strings printed so far, one for each call of
  \<^verbatim>\<open>print\<close>. A printing computation takes the output and returns its outcome together
  with the output extended by what it printed before it returned or raised.
\<close>

type_synonym 'a io = "string list \<Rightarrow> 'a result \<times> string list"

definition print_line :: "string \<Rightarrow> unit io" where
  "print_line s out = (Inr (), out @ [s])"

definition io_result :: "'a result \<Rightarrow> 'a io" where
  "io_result r out = (r, out)"

definition io_then :: "'a io \<Rightarrow> ('a \<Rightarrow> 'b io) \<Rightarrow> 'b io" where
  "io_then m f out = (case m out of (Inl e, out') \<Rightarrow> (Inl e, out') | (Inr x, out') \<Rightarrow> f x out')"

definition tab :: string where
  "tab = [CHR 0x09]"

text \<open>\<^verbatim>\<open>str()\<close> of a value of the dictionary, and of a float or \<^verbatim>\<open>None\<close>.\<close>

definition py_str :: "('q, 'o) sdk \<Rightarrow> ('q, 'o) pyval \<Rightarrow> string" where
  "py_str sdk v = (case v of PStr s \<Rightarrow> s | PObj x \<Rightarrow> str_obj sdk x | PTarget t \<Rightarrow> str_target sdk t)"

definition str_opt :: "('q, 'o) sdk \<Rightarrow> 'o option \<Rightarrow> string" where
  "str_opt sdk v = (case v of None \<Rightarrow> ''None'' | Some x \<Rightarrow> str_obj sdk x)"

text \<open>
  \<^verbatim>\<open>print(label, backend_info[key])\<close>: the subscript is evaluated first, then the two
  arguments are printed with a space between them.
\<close>

definition print_item :: "('q, 'o) sdk \<Rightarrow> ('q, 'o) backend_info \<Rightarrow> string \<Rightarrow> string \<Rightarrow> unit io" where
  "print_item sdk backend_info label key =
     io_then (io_result (getitem backend_info key)) (\<lambda>v.
       print_line (label @ '' '' @ py_str sdk v))"

text \<open>
  \<^verbatim>\<open>backend_info['coupling_map'].draw()\<close>: only an SDK object has the method; the returned
  drawing is dropped.
\<close>

definition call_draw :: "('q, 'o) sdk \<Rightarrow> ('q, 'o) backend_info \<Rightarrow> unit result" where
  "call_draw sdk backend_info =
     and_then (getitem backend_info ''coupling_map'') (\<lambda>v.
       case v of
         PObj cm \<Rightarrow> and_then (draw sdk cm) (\<lambda>drawing. Inr ())
       | PStr s \<Rightarrow> Inl AttributeError
       | PTarget t \<Rightarrow> Inl AttributeError)"

text \<open>
  \<^verbatim>\<open>backend_info['target'].keys()\<close>, \<^verbatim>\<open>backend_info['target'][gate]\<close> and
  \<^verbatim>\<open>backend_info['target'][gate][qbits]\<close>. Of the values of the dictionary only a target
  is a mapping: the others have no method \<^verbatim>\<open>keys\<close> and no subscript by a string.
\<close>

definition info_target_keys :: "('q, 'o) backend_info \<Rightarrow> string list result" where
  "info_target_keys backend_info =
     and_then (getitem backend_info ''target'') (\<lambda>v.
       case v of PTarget t \<Rightarrow> Inr (keys t) | PStr s \<Rightarrow> Inl AttributeError | PObj x \<Rightarrow> Inl AttributeError)"

definition info_target_gate ::
  "('q, 'o) backend_info \<Rightarrow> string \<Rightarrow> ('q \<times> 'o props option) list result"
where
  "info_target_gate backend_info gate =
     and_then (getitem backend_info ''target'') (\<lambda>v.
       case v of PTarget t \<Rightarrow> getitem t gate | PStr s \<Rightarrow> Inl TypeError | PObj x \<Rightarrow> Inl TypeError)"

definition info_target_entry ::
  "('q, 'o) backend_info \<Rightarrow> string \<Rightarrow> 'q \<Rightarrow> 'o props option result"
where
  "info_target_entry backend_info gate qbits =
     and_then (info_target_gate backend_info gate) (\<lambda>m. getitem m qbits)"

text \<open>
  \<^verbatim>\<open>
  for qbits in backend_info['target'][gate].keys():
      if backend_info['target'][gate][qbits] != None and backend_info['target'][gate][qbits] != None:
          print("\t\tQubit(s) {0}: duration={1}, error={2}".format(qbits,
                backend_info['target'][gate][qbits].duration,
                backend_info['target'][gate][qbits].error))
      else:
          print("\t\tQubit(s) {0}: duration=None, error=None".format(qbits))
  \<close>
\<close>

fun print_qbits_loop ::
  "('q, 'o) sdk \<Rightarrow> ('q, 'o) backend_info \<Rightarrow> string \<Rightarrow> 'q list \<Rightarrow> unit io"
where
  "print_qbits_loop sdk backend_info gate [] = io_result (Inr ())"
| "print_qbits_loop sdk backend_info gate (qbits # rest) =
     io_then (io_result (info_target_entry backend_info gate qbits)) (\<lambda>e1.
     io_then (io_result (if e1 \<noteq> None
                         then and_then (info_target_entry backend_info gate qbits) (\<lambda>e2. Inr (e2 \<noteq> None))
                         else Inr False)) (\<lambda>both.
     io_then (if both
              then io_then (io_result (and_then (info_target_entry backend_info gate qbits) attr_duration)) (\<lambda>d.
                   io_then (io_result (and_then (info_target_entry backend_info gate qbits) attr_error)) (\<lambda>e.
                     print_line (tab @ tab @ ''Qubit(s) '' @ str_qargs sdk qbits @ '': duration=''
                                 @ str_opt sdk d @ '', error='' @ str_opt sdk e)))
              else print_line (tab @ tab @ ''Qubit(s) '' @ str_qargs sdk qbits
                               @ '': duration=None, error=None'')) (\<lambda>u.
       print_qbits_loop sdk backend_info gate rest)))"

text \<open>
  \<^verbatim>\<open>
  for gate in backend_info['target'].keys():
      print("\t", gate)
      for qbits in backend_info['target'][gate].keys(): ...
  \<close>
\<close>

fun print_gate_loop ::
  "('q, 'o) sdk \<Rightarrow> ('q, 'o) backend_info \<Rightarrow> string list \<Rightarrow> unit io"
where
  "print_gate_loop sdk backend_info [] = io_result (Inr ())"
| "print_gate_loop sdk backend_info (gate # rest) =
     io_then (print_line (tab @ '' '' @ gate)) (\<lambda>u.
     io_then (io_result (info_target_gate backend_info gate)) (\<lambda>m.
     io_then (print_qbits_loop sdk backend_info gate (keys m)) (\<lambda>u.
       print_gate_loop sdk backend_info rest)))"

definition print_backend_info :: "('q, 'o) sdk \<Rightarrow> ('q, 'o) backend_info \<Rightarrow> unit io" where
  "print_backend_info sdk backend_info =
     io_then (print_item sdk backend_info ''Name: '' ''name'') (\<lambda>u.
     io_then (print_item sdk backend_info ''Version: '' ''version'') (\<lambda>u.
     io_then (print_item sdk backend_info ''Online date: '' ''online_date'') (\<lambda>u.
     io_then (print_item sdk backend_info ''Max circuits per job: '' ''max_circuits_per_job'') (\<lambda>u.
     io_then (print_item sdk backend_info ''Number of qubits: '' ''num_qubits'') (\<lambda>u.
     io_then (print_line ''System time resolution:'') (\<lambda>u.
     io_then (print_item sdk backend_info (tab @ ''Input signals: '')
                ''syst_time_resolution_input_signals'') (\<lambda>u.
     io_then (print_item sdk backend_info (tab @ ''Output signals: '')
                ''syst_time_resolution_output_signals'') (\<lambda>u.
     io_then (print_line ''Coupling map:'') (\<lambda>u.
     io_then (io_result (call_draw sdk backend_info)) (\<lambda>u.
     io_then (print_item sdk backend_info ''Operations names: '' ''operation_names'') (\<lambda>u.
     io_then (print_line ''Target:'') (\<lambda>u.
     io_then (io_result (info_target_keys backend_info)) (\<lambda>gates.
       print_gate_loop sdk backend_info gates)))))))))))))"

section \<open>The script\<close>

text \<open>
  The block under \<^verbatim>\<open>if __name__ == "__main__":\<close> runs top to bottom. Besides the helpers it
  calls the SDK: the constructors \<^verbatim>\<open>FakeProviderForBackendV2\<close>, \<^verbatim>\<open>QuantumCircuit\<close>,
  \<^verbatim>\<open>QiskitRuntimeService\<close>, \<^verbatim>\<open>Session\<close> and \<^verbatim>\<open>Sampler\<close>, the function \<^verbatim>\<open>transpile\<close>, and the
  methods \<^verbatim>\<open>get_backend\<close>, \<^verbatim>\<open>run\<close> and \<^verbatim>\<open>result\<close>. What these do is not in the repository:
  they are parameters, each returning a value or raising.

  A circuit is known by the calls that built it; \<open>h_gate\<close>, \<open>x_gate\<close> and \<open>cx_gate\<close>
  are the methods \<^verbatim>\<open>h\<close>, \<^verbatim>\<open>x\<close> and \<^verbatim>\<open>cx\<close>.
\<close>

datatype circuit_call = H nat | X nat | CX nat nat | Measure_all

record circuit =
  qubits :: nat
  clbits :: nat
  calls :: "circuit_call list"

definition QuantumCircuit :: "nat \<Rightarrow> nat \<Rightarrow> circuit" where
  "QuantumCircuit n m = \<lparr>qubits = n, clbits = m, calls = []\<rparr>"

definition h_gate :: "nat \<Rightarrow> circuit \<Rightarrow> circuit" where
  "h_gate q qc = qc\<lparr>calls := calls qc @ [H q]\<rparr>"

definition x_gate :: "nat \<Rightarrow> circuit \<Rightarrow> circuit" where
  "x_gate q qc = qc\<lparr>calls := calls qc @ [X q]\<rparr>"

definition cx_gate :: "nat \<Rightarrow> nat \<Rightarrow> circuit \<Rightarrow> circuit" where
  "cx_gate c t qc = qc\<lparr>calls := calls qc @ [CX c t]\<rparr>"

definition measure_all :: "circuit \<Rightarrow> circuit" where
  "measure_all qc = qc\<lparr>calls := calls qc @ [Measure_all]\<rparr>"

record ('q, 'o) runtime =
  FakeProviderForBackendV2 :: "('q, 'o) provider result"
  QiskitRuntimeService :: "string \<Rightarrow> string \<Rightarrow> string \<Rightarrow> 'o result"
  get_backend :: "'o \<Rightarrow> string \<Rightarrow> 'o result"
  Session :: "'o \<Rightarrow> 'o \<Rightarrow> 'o result"
  session_exit :: "'o \<Rightarrow> unit result"
  Sampler :: "'o \<Rightarrow> 'o options \<Rightarrow> 'o result"
  transpile :: "circuit \<Rightarrow> 'o \<Rightarrow> 'o result"
  run :: "'o \<Rightarrow> 'o \<Rightarrow> 'o result"
  job_result :: "'o \<Rightarrow> 'o result"

text \<open>
  What the script does to the outside is its standard output and, in order, the sessions it
  enters and leaves and the jobs it submits: \<open>Run sampler circuit\<close> stands for
  \<^verbatim>\<open>sampler.run(circuit)\<close>.
\<close>

datatype 'o event = Enter 'o | Run 'o 'o | Exit 'o

record 'o world =
  stdout :: "string list"
  trace :: "'o event list"

type_synonym ('o, 'a) script = "'o world \<Rightarrow> 'a result \<times> 'o world"

definition script_result :: "'a result \<Rightarrow> ('o, 'a) script" where
  "script_result r w = (r, w)"

definition script_then :: "('o, 'a) script \<Rightarrow> ('a \<Rightarrow> ('o, 'b) script) \<Rightarrow> ('o, 'b) script" where
  "script_then m f w = (case m w of (Inl e, w') \<Rightarrow> (Inl e, w') | (Inr v, w') \<Rightarrow> f v w')"

definition on_stdout :: "'a io \<Rightarrow> ('o, 'a) script" where
  "on_stdout m w = (case m (stdout w) of (r, out) \<Rightarrow> (r, w\<lparr>stdout := out\<rparr>))"

definition log_event :: "'o event \<Rightarrow> ('o, unit) script" where
  "log_event ev w = (Inr (), w\<lparr>trace := trace w @ [ev]\<rparr>)"

text \<open>
  \<^verbatim>\<open>get_backend_info(b)\<close> where \<^verbatim>\<open>b\<close> is what \<^verbatim>\<open>search_backend\<close> returned: on \<^verbatim>\<open>None\<close> the
  first attribute read raises \<^verbatim>\<open>AttributeError\<close>.
\<close>

definition get_backend_info_of :: "('q, 'o) backend option \<Rightarrow> ('q, 'o) backend_info result" where
  "get_backend_info_of b = (case b of None \<Rightarrow> Inl AttributeError | Some backend \<Rightarrow> get_backend_info backend)"

text \<open>
  \<^verbatim>\<open>
  with Session(service = ibm_quantum_service, backend = simulator) as session:
      sampler = Sampler(session = session, options = options)
      tqc = transpile(qc, simulator)
      job = sampler.run(tqc)
      result = job.result()
      print(result)
  \<close>
  The session is left when the body ends and also when it raises; an exception of the body
  is raised again after that, unless leaving raises itself.
\<close>

definition experiment_body ::
  "('q, 'o) runtime \<Rightarrow> ('q, 'o) sdk \<Rightarrow> circuit \<Rightarrow> 'o \<Rightarrow> 'o options \<Rightarrow> 'o \<Rightarrow> ('o, unit) script"
where
  "experiment_body rt sdk qc sim opts session =
     script_then (script_result (Sampler rt session opts)) (\<lambda>sampler.
     script_then (script_result (transpile rt qc sim)) (\<lambda>tqc.
     script_then (log_event (Run sampler tqc)) (\<lambda>u.
     script_then (script_result (run rt sampler tqc)) (\<lambda>job.
     script_then (script_result (job_result rt job)) (\<lambda>result.
       on_stdout (print_line (str_obj sdk result)))))))"

definition with_session ::
  "('q, 'o) runtime \<Rightarrow> 'o \<Rightarrow> 'o \<Rightarrow> ('o \<Rightarrow> ('o, unit) script) \<Rightarrow> ('o, unit) script"
where
  "with_session rt service sim body =
     script_then (script_result (Session rt service sim)) (\<lambda>session.
     script_then (log_event (Enter session)) (\<lambda>u w.
       case body session w of (r, w') \<Rightarrow>
         (case log_event (Exit session) w' of (u', w'') \<Rightarrow>
            (case session_exit rt session of Inl e \<Rightarrow> (Inl e, w'') | Inr u'' \<Rightarrow> (r, w'')))))"

definition main_block :: "('q, 'o) runtime \<Rightarrow> ('q, 'o) sdk \<Rightarrow> ('o, unit) script" where
  "main_block rt sdk =
     script_then (script_result (FakeProviderForBackendV2 rt)) (\<lambda>fake_provider.
     script_then (script_result (backends fake_provider)) (\<lambda>fake_backends.
     script_then (script_result (search_backend fake_provider ''fake_melbourne'')) (\<lambda>fake_Melbourne.
     script_then (script_result (search_backend fake_provider ''fake_armonk'')) (\<lambda>fake_Armonk.
     script_then (on_stdout (print_line ''>> Information about different backends'')) (\<lambda>u.
     script_then (script_result (get_backend_info_of fake_Melbourne)) (\<lambda>Melbourne_info.
     script_then (on_stdout (print_backend_info sdk Melbourne_info)) (\<lambda>u.
     script_then (script_result (get_backend_info_of fake_Armonk)) (\<lambda>Armonk_info.
     script_then (on_stdout (print_backend_info sdk Armonk_info)) (\<lambda>u.
     script_then (on_stdout (print_line ([CHR 0x0A] @ '' SIMULATIONS''))) (\<lambda>u.
     let qc = measure_all (cx_gate 0 1 (x_gate 1 (h_gate 0 (QuantumCircuit 2 2)))) in
     script_then (script_result
        (QiskitRuntimeService rt ''ibm_quantum'' [] ''ibm-q/open/main'')) (\<lambda>ibm_quantum_service.
     script_then (script_result
        (get_backend rt ibm_quantum_service ''ibmq_qasm_simulator'')) (\<lambda>simulator.
     let nb_shots = 1024 in
     script_then (script_result (create_options sdk nb_shots None)) (\<lambda>ideal_options.
     script_then (script_result (create_options sdk nb_shots fake_Melbourne)) (\<lambda>noisy_options.
     script_then (on_stdout (print_line ''>> Running experiments on ideal backend...'')) (\<lambda>u.
     script_then (with_session rt ibm_quantum_service simulator
        (experiment_body rt sdk qc simulator ideal_options)) (\<lambda>u.
     script_then (on_stdout (print_line ''>> Running experiments on noisy backend...'')) (\<lambda>u.
       with_session rt ibm_quantum_service simulator
         (experiment_body rt sdk qc simulator noisy_options))))))))))))))))))"

section \<open>Objects with state\<close>

text \<open>
  Above, reading an attribute or calling the SDK is one fixed outcome. That is enough to say
  what a helper returns, but not what it does to an object, nor how often and in which order
  it turns to the SDK. For these questions the five helpers are written once more, statement
  for statement, over objects whose reads and calls act on a state of the SDK: a call takes
  the state and gives its outcome and the state it leaves.

  An execution carries that state, the outcome (returned, or the exception raised) of every
  operation that can raise, in the order in which they were performed, and what was printed.
\<close>

type_synonym ('s, 'a) call = "'s \<Rightarrow> 'a result \<times> 's"

record 's exec =
  sdk_state :: 's
  outcomes :: "exc option list"
  printed :: "string list"

type_synonym ('s, 'a) prog = "'s exec \<Rightarrow> 'a result \<times> 's exec"

text \<open>
  \<open>access\<close> is a read of a property or a call of the SDK; \<open>attempt\<close> is an operation of
  Python itself that can raise (a subscript, a read of an attribute of a value) and does not
  touch the SDK; \<open>emit\<close> is \<^verbatim>\<open>print\<close>; \<open>prog_then\<close> runs one statement after another, and
  stops at an exception.
\<close>

definition access :: "('s, 'a) call \<Rightarrow> ('s, 'a) prog" where
  "access c w =
     (case c (sdk_state w) of
        (r, s') \<Rightarrow> (r, w\<lparr>sdk_state := s', outcomes := outcomes w @ [raised r]\<rparr>))"

definition attempt :: "'a result \<Rightarrow> ('s, 'a) prog" where
  "attempt r w = (r, w\<lparr>outcomes := outcomes w @ [raised r]\<rparr>)"

definition emit :: "string \<Rightarrow> ('s, unit) prog" where
  "emit line w = (Inr (), w\<lparr>printed := printed w @ [line]\<rparr>)"

definition prog_return :: "'a \<Rightarrow> ('s, 'a) prog" where
  "prog_return v w = (Inr v, w)"

definition prog_then :: "('s, 'a) prog \<Rightarrow> ('a \<Rightarrow> ('s, 'b) prog) \<Rightarrow> ('s, 'b) prog" where
  "prog_then m f w = (case m w of (Inl e, w') \<Rightarrow> (Inl e, w') | (Inr v, w') \<Rightarrow> f v w')"

record ('q, 'o, 's) backend_object =
  read_name :: "('s, string) call"
  read_backend_version :: "('s, 'o) call"
  read_online_date :: "('s, 'o) call"
  read_dt :: "('s, 'o) call"
  read_dtm :: "('s, 'o) call"
  read_max_circuits :: "('s, 'o) call"
  read_num_qubits :: "('s, 'o) call"
  read_coupling_map :: "('s, 'o) call"
  read_operation_names :: "('s, 'o) call"
  read_instruction_durations :: "('s, 'o) call"
  read_instruction_schedule_map :: "('s, 'o) call"
  read_target :: "('s, ('q, 'o) target) call"

record ('q, 'o, 's) provider_object =
  backends_call :: "('s, ('q, 'o, 's) backend_object list) call"

text \<open>
  The SDK as the helpers use it: three calls that act on the state, and \<^verbatim>\<open>str()\<close>, which is
  taken from a record \<open>sdk\<close> as before.
\<close>

record ('q, 'o, 's) sdk_object =
  Options_call :: "('s, 'o options) call"
  from_backend_call :: "('q, 'o, 's) backend_object \<Rightarrow> ('s, 'o) call"
  draw_call :: "'o \<Rightarrow> ('s, 'o) call"
  strings :: "('q, 'o) sdk"

subsection \<open>\<^verbatim>\<open>search_backend\<close>\<close>

fun search_loop_st ::
  "('q, 'o, 's) backend_object list \<Rightarrow> string \<Rightarrow> ('q, 'o, 's) backend_object option
     \<Rightarrow> ('s, ('q, 'o, 's) backend_object option) prog"
where
  "search_loop_st [] searched_backend_name searched_backend = prog_return searched_backend"
| "search_loop_st (b # bs) searched_backend_name searched_backend =
     prog_then (access (read_name b)) (\<lambda>n.
       search_loop_st bs searched_backend_name
         (if n = searched_backend_name then Some b else searched_backend))"

definition search_backend_st ::
  "('q, 'o, 's) provider_object \<Rightarrow> string \<Rightarrow> ('s, ('q, 'o, 's) backend_object option) prog"
where
  "search_backend_st provider searched_backend_name =
     prog_then (access (backends_call provider)) (\<lambda>bs.
       search_loop_st bs searched_backend_name None)"

subsection \<open>\<^verbatim>\<open>get_backend_info\<close>\<close>

definition get_backend_info_st ::
  "('q, 'o, 's) backend_object \<Rightarrow> ('s, ('q, 'o) backend_info) prog"
where
  "get_backend_info_st backend =
     prog_then (access (read_name backend)) (\<lambda>v1.
     prog_then (access (read_backend_version backend)) (\<lambda>v2.
     prog_then (access (read_online_date backend)) (\<lambda>v3.
     prog_then (access (read_dt backend)) (\<lambda>v4.
     prog_then (access (read_dtm backend)) (\<lambda>v5.
     prog_then (access (read_max_circuits backend)) (\<lambda>v6.
     prog_then (access (read_num_qubits backend)) (\<lambda>v7.
     prog_then (access (read_coupling_map backend)) (\<lambda>v8.
     prog_then (access (read_operation_names backend)) (\<lambda>v9.
     prog_then (access (read_instruction_durations backend)) (\<lambda>v10.
     prog_then (access (read_instruction_schedule_map backend)) (\<lambda>v11.
     prog_then (access (read_target backend)) (\<lambda>v12.
       prog_return
           [(''name'', PStr v1),
            (''version'', PObj v2),
            (''online_date'', PObj v3),
            (''syst_time_resolution_input_signals'', PObj v4),
            (''syst_time_resolution_output_signals'', PObj v5),
            (''max_circuits_per_job'', PObj v6),
            (''num_qubits'', PObj v7),
            (''coupling_map'', PObj v8),
            (''operation_names'', PObj v9),
            (''instruction_durations'', PObj v10),
            (''instruction_schedule_map'', PObj v11),
            (''target'', PTarget v12)]))))))))))))"

subsection \<open>\<^verbatim>\<open>get_gate_errors\<close>\<close>

text \<open>
  Each occurrence of \<^verbatim>\<open>backend.target\<close> in the source is a read of the property of its own,
  and each subscript can raise \<^verbatim>\<open>KeyError\<close>.
\<close>

definition target_gate_st ::
  "('q, 'o, 's) backend_object \<Rightarrow> string \<Rightarrow> ('s, ('q \<times> 'o props option) list) prog"
where
  "target_gate_st backend gate =
     prog_then (access (read_target backend)) (\<lambda>t. attempt (getitem t gate))"

definition target_entry_st ::
  "('q, 'o, 's) backend_object \<Rightarrow> string \<Rightarrow> 'q \<Rightarrow> ('s, 'o props option) prog"
where
  "target_entry_st backend gate qbits =
     prog_then (target_gate_st backend gate) (\<lambda>m. attempt (getitem m qbits))"

definition set_gate_error_st ::
  "('q, 'o) gate_errors \<Rightarrow> string \<Rightarrow> 'q \<Rightarrow> 'o option \<Rightarrow> ('s, ('q, 'o) gate_errors) prog"
where
  "set_gate_error_st gate_errors gate qbits v =
     prog_then (attempt (getitem gate_errors gate)) (\<lambda>inner.
       prog_return (setitem gate_errors gate (setitem inner qbits v)))"

fun qbits_loop_st ::
  "('q, 'o, 's) backend_object \<Rightarrow> string \<Rightarrow> 'q list \<Rightarrow> ('q, 'o) gate_errors
     \<Rightarrow> ('s, ('q, 'o) gate_errors) prog"
where
  "qbits_loop_st backend gate [] gate_errors = prog_return gate_errors"
| "qbits_loop_st backend gate (qbits # rest) gate_errors =
     prog_then (target_entry_st backend gate qbits) (\<lambda>e1.
     prog_then (if e1 \<noteq> None
                then prog_then (target_entry_st backend gate qbits) (\<lambda>e2. prog_return (e2 \<noteq> None))
                else prog_return False) (\<lambda>both.
     prog_then (if both
                then prog_then (target_entry_st backend gate qbits) (\<lambda>e3.
                     prog_then (attempt (attr_error e3)) (\<lambda>v.
                       set_gate_error_st gate_errors gate qbits v))
                else set_gate_error_st gate_errors gate qbits None) (\<lambda>gate_errors'.
       qbits_loop_st backend gate rest gate_errors')))"

fun gate_loop_st ::
  "('q, 'o, 's) backend_object \<Rightarrow> string list \<Rightarrow> ('q, 'o) gate_errors
     \<Rightarrow> ('s, ('q, 'o) gate_errors) prog"
where
  "gate_loop_st backend [] gate_errors = prog_return gate_errors"
| "gate_loop_st backend (gate # rest) gate_errors =
     (let gate_errors1 = setitem gate_errors gate [] in
      prog_then (target_gate_st backend gate) (\<lambda>m.
      prog_then (qbits_loop_st backend gate (keys m) gate_errors1) (\<lambda>gate_errors2.
        gate_loop_st backend rest gate_errors2)))"

definition get_gate_errors_st ::
  "('q, 'o, 's) backend_object \<Rightarrow> ('s, ('q, 'o) gate_errors) prog"
where
  "get_gate_errors_st backend =
     prog_then (access (read_target backend)) (\<lambda>t. gate_loop_st backend (keys t) [])"

subsection \<open>\<^verbatim>\<open>create_options\<close>\<close>

definition create_options_st ::
  "('q, 'o, 's) sdk_object \<Rightarrow> int \<Rightarrow> ('q, 'o, 's) backend_object option \<Rightarrow> ('s, 'o options) prog"
where
  "create_options_st sdk nb_shots backend =
     prog_then (access (Options_call sdk)) (\<lambda>options0.
       let options1 = options0\<lparr>execution := (execution options0)\<lparr>shots := Some nb_shots\<rparr>\<rparr>;
           options2 = options1\<lparr>optimization_level := Some 0\<rparr>;
           options3 = options2\<lparr>resilience_level := Some 0\<rparr>
       in (case backend of
             Some b \<Rightarrow>
               prog_then (access (from_backend_call sdk b)) (\<lambda>noise_model.
               prog_then (access (read_operation_names b)) (\<lambda>basis_gates.
               prog_then (access (read_coupling_map b)) (\<lambda>cmap.
                 prog_return (options3\<lparr>simulator := SimulatorDict
                        [(''noise_model'', noise_model),
                         (''basis_gates'', basis_gates),
                         (''coupling_map'', cmap)]\<rparr>))))
           | None \<Rightarrow> prog_return options3))"

subsection \<open>\<^verbatim>\<open>print_backend_info\<close>\<close>

definition print_item_st ::
  "('q, 'o, 's) sdk_object \<Rightarrow> ('q, 'o) backend_info \<Rightarrow> string \<Rightarrow> string \<Rightarrow> ('s, unit) prog"
where
  "print_item_st sdk backend_info label key =
     prog_then (attempt (getitem backend_info key)) (\<lambda>v.
       emit (label @ '' '' @ py_str (strings sdk) v))"

definition draw_st :: "('q, 'o, 's) sdk_object \<Rightarrow> ('q, 'o) backend_info \<Rightarrow> ('s, unit) prog" where
  "draw_st sdk backend_info =
     prog_then (attempt (getitem backend_info ''coupling_map'')) (\<lambda>v.
       case v of
         PObj cm \<Rightarrow> prog_then (access (draw_call sdk cm)) (\<lambda>drawing. prog_return ())
       | PStr s \<Rightarrow> attempt (Inl AttributeError)
       | PTarget t \<Rightarrow> attempt (Inl AttributeError))"

definition info_target_keys_st :: "('q, 'o) backend_info \<Rightarrow> ('s, string list) prog" where
  "info_target_keys_st backend_info =
     prog_then (attempt (getitem backend_info ''target'')) (\<lambda>v.
       case v of
         PTarget t \<Rightarrow> prog_return (keys t)
       | PStr s \<Rightarrow> attempt (Inl AttributeError)
       | PObj obj \<Rightarrow> attempt (Inl AttributeError))"

definition info_target_gate_st ::
  "('q, 'o) backend_info \<Rightarrow> string \<Rightarrow> ('s, ('q \<times> 'o props option) list) prog"
where
  "info_target_gate_st backend_info gate =
     prog_then (attempt (getitem backend_info ''target'')) (\<lambda>v.
       case v of
         PTarget t \<Rightarrow> attempt (getitem t gate)
       | PStr s \<Rightarrow> attempt (Inl TypeError)
       | PObj obj \<Rightarrow> attempt (Inl TypeError))"

definition info_target_entry_st ::
  "('q, 'o) backend_info \<Rightarrow> string \<Rightarrow> 'q \<Rightarrow> ('s, 'o props option) prog"
where
  "info_target_entry_st backend_info gate qbits =
     prog_then (info_target_gate_st backend_info gate) (\<lambda>m. attempt (getitem m qbits))"

fun print_qbits_loop_st ::
  "('q, 'o, 's) sdk_object \<Rightarrow> ('q, 'o) backend_info \<Rightarrow> string \<Rightarrow> 'q list \<Rightarrow> ('s, unit) prog"
where
  "print_qbits_loop_st sdk backend_info gate [] = prog_return ()"
| "print_qbits_loop_st sdk backend_info gate (qbits # rest) =
     prog_then (info_target_entry_st backend_info gate qbits) (\<lambda>e1.
     prog_then (if e1 \<noteq> None
                then prog_then (info_target_entry_st backend_info gate qbits) (\<lambda>e2.
                       prog_return (e2 \<noteq> None))
                else prog_return False) (\<lambda>both.
     prog_then (if both
                then prog_then (prog_then (info_target_entry_st backend_info gate qbits)
                                  (\<lambda>e3. attempt (attr_duration e3))) (\<lambda>d.
                     prog_then (prog_then (info_target_entry_st backend_info gate qbits)
                                  (\<lambda>e4. attempt (attr_error e4))) (\<lambda>e.
                       emit (tab @ tab @ ''Qubit(s) '' @ str_qargs (strings sdk) qbits @ '': duration=''
                             @ str_opt (strings sdk) d @ '', error='' @ str_opt (strings sdk) e)))
                else emit (tab @ tab @ ''Qubit(s) '' @ str_qargs (strings sdk) qbits
                           @ '': duration=None, error=None'')) (\<lambda>u.
       print_qbits_loop_st sdk backend_info gate rest)))"

fun print_gate_loop_st ::
  "('q, 'o, 's) sdk_object \<Rightarrow> ('q, 'o) backend_info \<Rightarrow> string list \<Rightarrow> ('s, unit) prog"
where
  "print_gate_loop_st sdk backend_info [] = prog_return ()"
| "print_gate_loop_st sdk backend_info (gate # rest) =
     prog_then (emit (tab @ '' '' @ gate)) (\<lambda>u.
     prog_then (info_target_gate_st backend_info gate) (\<lambda>m.
     prog_then (print_qbits_loop_st sdk backend_info gate (keys m)) (\<lambda>u.
       print_gate_loop_st sdk backend_info rest)))"

definition print_backend_info_st ::
  "('q, 'o, 's) sdk_object \<Rightarrow> ('q, 'o) backend_info \<Rightarrow> ('s, unit) prog"
where
  "print_backend_info_st sdk backend_info =
     prog_then (print_item_st sdk backend_info ''Name: '' ''name'') (\<lambda>u.
     prog_then (print_item_st sdk backend_info ''Version: '' ''version'') (\<lambda>u.
     prog_then (print_item_st sdk backend_info ''Online date: '' ''online_date'') (\<lambda>u.
     prog_then (print_item_st sdk backend_info ''Max circuits per job: '' ''max_circuits_per_job'') (\<lambda>u.
     prog_then (print_item_st sdk backend_info ''Number of qubits: '' ''num_qubits'') (\<lambda>u.
     prog_then (emit ''System time resolution:'') (\<lambda>u.
     prog_then (print_item_st sdk backend_info (tab @ ''Input signals: '')
                  ''syst_time_resolution_input_signals'') (\<lambda>u.
     prog_then (print_item_st sdk backend_info (tab @ ''Output signals: '')
                  ''syst_time_resolution_output_signals'') (\<lambda>u.
     prog_then (emit ''Coupling map:'') (\<lambda>u.
     prog_then (draw_st sdk backend_info) (\<lambda>u.
     prog_then (print_item_st sdk backend_info ''Operations names: '' ''operation_names'') (\<lambda>u.
     prog_then (emit ''Target:'') (\<lambda>u.
     prog_then (info_target_keys_st backend_info) (\<lambda>gates.
       print_gate_loop_st sdk backend_info gates)))))))))))))"

subsection \<open>Exceptions in an execution\<close>

text \<open>
  \<open>passes_through new r\<close>: among the outcomes \<open>new\<close> recorded by a function, in order, either
  nothing was raised and the function returned, or the first exception raised is the last
  operation the function performed and is what the function raises.
\<close>

fun passes_through :: "exc option list \<Rightarrow> 'a result \<Rightarrow> bool" where
  "passes_through [] r = (case r of Inl e \<Rightarrow> False | Inr v \<Rightarrow> True)"
| "passes_through (None # rest) r = passes_through rest r"
| "passes_through (Some e # rest) r = (rest = [] \<and> r = Inl e)"

definition propagating :: "('s, 'a) prog \<Rightarrow> bool" where
  "propagating m =
     (\<forall>w. \<exists>r w' new. m w = (r, w') \<and> outcomes w' = outcomes w @ new \<and> passes_through new r)"

text \<open>A call that leaves the state of the SDK as it found it.\<close>

definition leaves_unchanged :: "('s, 'a) call \<Rightarrow> bool" where
  "leaves_unchanged c = (\<forall>s. snd (c s) = s)"

text \<open>
  An object whose reads are the fixed outcomes of a record \<open>backend\<close> as above and leave the
  state alone, and likewise a provider and an SDK.
\<close>

definition fixed :: "'a result \<Rightarrow> ('s, 'a) call" where
  "fixed r s = (r, s)"

definition fixed_backend :: "('q, 'o) backend \<Rightarrow> ('q, 'o, 's) backend_object" where
  "fixed_backend b =
     \<lparr>read_name = fixed (name b),
      read_backend_version = fixed (backend_version b),
      read_online_date = fixed (online_date b),
      read_dt = fixed (dt b),
      read_dtm = fixed (dtm b),
      read_max_circuits = fixed (max_circuits b),
      read_num_qubits = fixed (num_qubits b),
      read_coupling_map = fixed (coupling_map b),
      read_operation_names = fixed (operation_names b),
      read_instruction_durations = fixed (instruction_durations b),
      read_instruction_schedule_map = fixed (instruction_schedule_map b),
      read_target = fixed (target b)\<rparr>"

definition fixed_provider :: "('q, 'o) provider \<Rightarrow> ('q, 'o, 's) provider_object" where
  "fixed_provider p = \<lparr>backends_call = fixed (map_sum id (map fixed_backend) (backends p))\<rparr>"

text \<open>The outcomes of the twelve reads of an object in a given state.\<close>

definition snapshot :: "('q, 'o, 's) backend_object \<Rightarrow> 's \<Rightarrow> ('q, 'o) backend" where
  "snapshot b s =
     \<lparr>name = fst (read_name b s),
      backend_version = fst (read_backend_version b s),
      online_date = fst (read_online_date b s),
      dt = fst (read_dt b s),
      dtm = fst (read_dtm b s),
      max_circuits = fst (read_max_circuits b s),
      num_qubits = fst (read_num_qubits b s),
      coupling_map = fst (read_coupling_map b s),
      operation_names = fst (read_operation_names b s),
      instruction_durations = fst (read_instruction_durations b s),
      instruction_schedule_map = fst (read_instruction_schedule_map b s),
      target = fst (read_target b s)\<rparr>"

definition fixed_sdk :: "('q, 'o) sdk \<Rightarrow> ('q, 'o, 's) sdk_object" where
  "fixed_sdk sdk =
     \<lparr>Options_call = fixed (Options sdk),
      from_backend_call = (\<lambda>b s. (from_backend sdk (snapshot b s), s)),
      draw_call = (\<lambda>cm. fixed (draw sdk cm)),
      strings = sdk\<rparr>"

text \<open>
  A printing function over objects with state and one over fixed outcomes agree when, on the
  same output so far, they have the same outcome and print the same.
\<close>

definition agrees :: "('s, 'a) prog \<Rightarrow> 'a io \<Rightarrow> bool" where
  "agrees m m' =
     (\<forall>w. fst (m w) = fst (m' (printed w)) \<and> printed (snd (m w)) = snd (m' (printed w)))"

section \<open>Expected results\<close>

text \<open>
  What the helpers are expected to compute, written down independently of the loops above:
  the value stored for a target entry, the relation between an inner dictionary of
  \<^verbatim>\<open>get_gate_errors\<close> and the inner mapping of the target it was built from, and the lines
  \<^verbatim>\<open>print_backend_info\<close> prints.
\<close>

definition entry_error :: "'o props option \<Rightarrow> 'o option" where
  "entry_error entry = (case entry of None \<Rightarrow> None | Some p \<Rightarrow> error p)"

definition errors_of :: "('q \<times> 'o option) list \<Rightarrow> ('q \<times> 'o props option) list \<Rightarrow> bool" where
  "errors_of inner m = (\<forall>q. map_of inner q = map_option entry_error (map_of m q))"

definition none_line :: "('q, 'o) sdk \<Rightarrow> 'q \<Rightarrow> string" where
  "none_line sdk qbits = tab @ tab @ ''Qubit(s) '' @ str_qargs sdk qbits @ '': duration=None, error=None''"

definition qubit_line :: "('q, 'o) sdk \<Rightarrow> 'q \<Rightarrow> 'o props option \<Rightarrow> string" where
  "qubit_line sdk qbits entry =
     (case entry of
        None \<Rightarrow> none_line sdk qbits
      | Some p \<Rightarrow> tab @ tab @ ''Qubit(s) '' @ str_qargs sdk qbits @ '': duration=''
                  @ str_opt sdk (duration p) @ '', error='' @ str_opt sdk (error p))"

definition qubit_lines :: "('q, 'o) sdk \<Rightarrow> ('q \<times> 'o props option) list \<Rightarrow> 'q list \<Rightarrow> string list" where
  "qubit_lines sdk m qs =
     concat (map (\<lambda>q. case map_of m q of None \<Rightarrow> [] | Some e \<Rightarrow> [qubit_line sdk q e]) qs)"

definition gate_lines :: "('q, 'o) sdk \<Rightarrow> ('q, 'o) target \<Rightarrow> string list \<Rightarrow> string list" where
  "gate_lines sdk t gs =
     concat (map (\<lambda>g. (tab @ '' '' @ g) #
                       (case map_of t g of None \<Rightarrow> [] | Some m \<Rightarrow> qubit_lines sdk m (keys m))) gs)"

definition header_lines :: "('q, 'o) sdk \<Rightarrow> ('q, 'o) backend_info \<Rightarrow> string list" where
  "header_lines sdk info =
     map (\<lambda>(label, key). label @ '' '' @ (case map_of info key of Some v \<Rightarrow> py_str sdk v | None \<Rightarrow> []))
       [(''Name: '', ''name''), (''Version: '', ''version''), (''Online date: '', ''online_date''),
        (''Max circuits per job: '', ''max_circuits_per_job''),
        (''Number of qubits: '', ''num_qubits'')]
     @ [''System time resolution:'']
     @ map (\<lambda>(label, key). label @ '' '' @ (case map_of info key of Some v \<Rightarrow> py_str sdk v | None \<Rightarrow> []))
       [(tab @ ''Input signals: '', ''syst_time_resolution_input_signals''),
        (tab @ ''Output signals: '', ''syst_time_resolution_output_signals'')]
     @ [''Coupling map:'']"

section \<open>Fixtures\<close>

text \<open>
  Concrete objects for the closed instances of the theorems: a backend whose twelve
  attributes can all be read, told apart by its name and its version; a provider that lists
  given backends; a target with an entry that is \<^verbatim>\<open>None\<close>; an SDK whose calls all return.
\<close>

definition fixture_backend :: "string \<Rightarrow> nat \<Rightarrow> (nat list, nat) target \<Rightarrow> (nat list, nat) backend" where
  "fixture_backend n v t =
     \<lparr>name = Inr n, backend_version = Inr v, online_date = Inr 20231119, dt = Inr 2,
      dtm = Inr 3, max_circuits = Inr 900, num_qubits = Inr 15, coupling_map = Inr 7,
      operation_names = Inr 8, instruction_durations = Inr 9,
      instruction_schedule_map = Inr 10, target = Inr t\<rparr>"

definition fixture_provider :: "(nat list, nat) backend list \<Rightarrow> (nat list, nat) provider" where
  "fixture_provider bs = \<lparr>backends = Inr bs\<rparr>"

definition fixture_target :: "(nat list, nat) target" where
  "fixture_target =
     [(''cx'', [([0, 1], Some \<lparr>duration = Some 35, error = Some 12\<rparr>), ([1, 0], None)]),
      (''measure'', [([0], Some \<lparr>duration = None, error = Some 4\<rparr>)]),
      (''delay'', [([0], None)])]"

definition fixture_options :: "nat options" where
  "fixture_options =
     \<lparr>optimization_level = None, resilience_level = None,
      execution = \<lparr>shots = Some 4000, other_execution = 21\<rparr>,
      simulator = SimulatorOptions 22, other_options = 23\<rparr>"

definition fixture_sdk :: "(nat list, nat) sdk" where
  "fixture_sdk =
     \<lparr>Options = Inr fixture_options,
      from_backend = (\<lambda>b. Inr 30),
      draw = (\<lambda>cm. Inr 31),
      str_obj = (\<lambda>x. ''obj''),
      str_qargs = (\<lambda>q. ''qargs''),
      str_target = (\<lambda>t. ''target'')\<rparr>"

definition fixture_runtime :: "(nat list, nat) runtime" where
  "fixture_runtime =
     \<lparr>FakeProviderForBackendV2 = Inr (fixture_provider
        [fixture_backend ''fake_armonk'' 1 [(''id'', [([0], None)])],
         fixture_backend ''fake_melbourne'' 2 fixture_target]),
      QiskitRuntimeService = (\<lambda>channel token instance. Inr 40),
      get_backend = (\<lambda>service n. Inr 41),
      Session = (\<lambda>service backend. Inr 42),
      session_exit = (\<lambda>session. Inr ()),
      Sampler = (\<lambda>session opts. Inr (case simulator opts of SimulatorOptions so \<Rightarrow> 43 | SimulatorDict d \<Rightarrow> 44)),
      transpile = (\<lambda>qc backend. Inr (45 + length (calls qc))),
      run = (\<lambda>sampler tqc. Inr (sampler + 10)),
      job_result = (\<lambda>job. Inr (job + 10))\<rparr>"

text \<open>
  Objects with a state for the closed instances: the state counts the reads and calls made
  so far. \<open>counting r\<close> always has the outcome \<open>r\<close>; \<open>busy_at n v\<close> raises when it is
  the call number \<open>n\<close> (counted from 0) and returns \<open>v\<close> at any other time, so that a second
  try would return.
\<close>

definition counting :: "'a result \<Rightarrow> (nat, 'a) call" where
  "counting r s = (r, Suc s)"

definition busy_at :: "nat \<Rightarrow> 'a \<Rightarrow> (nat, 'a) call" where
  "busy_at n v s = (if s = n then Inl (SdkError ''busy'') else Inr v, Suc s)"

definition counting_backend :: "string \<Rightarrow> nat \<Rightarrow> (nat list, nat) target \<Rightarrow> (nat list, nat, nat) backend_object" where
  "counting_backend n v t =
     \<lparr>read_name = counting (Inr n),
      read_backend_version = counting (Inr v),
      read_online_date = counting (Inr 20231119),
      read_dt = counting (Inr 2),
      read_dtm = counting (Inr 3),
      read_max_circuits = counting (Inr 900),
      read_num_qubits = counting (Inr 15),
      read_coupling_map = counting (Inr 7),
      read_operation_names = counting (Inr 8),
      read_instruction_durations = counting (Inr 9),
      read_instruction_schedule_map = counting (Inr 10),
      read_target = counting (Inr t)\<rparr>"

definition counting_sdk :: "(nat list, nat, nat) sdk_object" where
  "counting_sdk =
     \<lparr>Options_call = counting (Inr fixture_options),
      from_backend_call = (\<lambda>b. counting (Inr 30)),
      draw_call = (\<lambda>cm. counting (Inr 31)),
      strings = fixture_sdk\<rparr>"

definition start :: "nat exec" where
  "start = \<lparr>sdk_state = 0, outcomes = [], printed = []\<rparr>"

text \<open>
  A backend that builds its target on the first read of the property and keeps it: the
  state says whether the target has been built.
\<close>

definition lazy_backend :: "(nat list, nat, bool) backend_object" where
  "lazy_backend =
     (fixed_backend (fixture_backend ''fake_armonk'' 2 fixture_target))
       \<lparr>read_target := (\<lambda>built. (Inr fixture_target, True))\<rparr>"

section \<open>Facts about dictionaries\<close>

lemma set_keys_dom: "set (keys d) = dom (map_of d)"
  by (simp add: keys_def dom_map_of_conv_image_fst)

lemma getitem_Inr_iff: "getitem d k = Inr v \<longleftrightarrow> map_of d k = Some v"
  by (simp add: getitem_def split: option.splits)

section \<open>Properties of \<^verbatim>\<open>search_backend\<close>\<close>

lemma search_loop_readable:
  assumes "\<forall>b \<in> set bs. \<exists>n. name b = Inr n"
  shows "search_loop bs s found =
    Inr (case filter (\<lambda>b. name b = Inr s) bs of [] \<Rightarrow> found | m # ms \<Rightarrow> Some (last (m # ms)))"
  using assms
proof (induction bs arbitrary: found)
  case Nil
  show ?case by simp
next
  case (Cons b bs)
  from Cons.prems obtain n where n: "name b = Inr n" by auto
  from Cons.prems have rest: "\<forall>b \<in> set bs. \<exists>n. name b = Inr n" by simp
  show ?case
  proof (cases "n = s")
    case True
    with n rest Cons.IH [of "Some b"] show ?thesis
      by (simp add: and_then_def split: list.splits)
  next
    case False
    with n rest Cons.IH [of found] show ?thesis
      by (simp add: and_then_def split: list.splits)
  qed
qed

text \<open>
  C1. When \<^verbatim>\<open>provider.backends()\<close> returns a list and the name of each of its backends can be
  read: if some backend of the list has the searched name, \<^verbatim>\<open>search_backend\<close> returns a backend
  of that list whose name is the searched one; if none has, it returns \<^verbatim>\<open>None\<close>.
\<close>

theorem search_backend_found_or_None:
  assumes "backends provider = Inr bs"
    and "\<forall>b \<in> set bs. \<exists>n. name b = Inr n"
  shows "((\<exists>b \<in> set bs. name b = Inr s) \<longrightarrow>
            (\<exists>b \<in> set bs. search_backend provider s = Inr (Some b) \<and> name b = Inr s))
       \<and> ((\<forall>b \<in> set bs. name b \<noteq> Inr s) \<longrightarrow> search_backend provider s = Inr None)"
proof -
  let ?ms = "filter (\<lambda>b. name b = Inr s) bs"
  have run: "search_backend provider s =
      Inr (case ?ms of [] \<Rightarrow> None | m # ms \<Rightarrow> Some (last (m # ms)))"
    using assms by (simp add: search_backend_def and_then_def search_loop_readable)
  have found: "\<exists>b \<in> set bs. search_backend provider s = Inr (Some b) \<and> name b = Inr s"
    if "\<exists>b \<in> set bs. name b = Inr s"
  proof -
    from that have ne: "?ms \<noteq> []" by (simp add: filter_empty_conv)
    then have "last ?ms \<in> set ?ms" by (rule last_in_set)
    then have "last ?ms \<in> set bs" and "name (last ?ms) = Inr s" by simp_all
    moreover from ne run have "search_backend provider s = Inr (Some (last ?ms))"
      by (simp split: list.splits)
    ultimately show ?thesis by blast
  qed
  have absent: "search_backend provider s = Inr None" if "\<forall>b \<in> set bs. name b \<noteq> Inr s"
  proof -
    from that have "?ms = []" by (simp add: filter_empty_conv)
    with run show ?thesis by simp
  qed
  from found absent show ?thesis by blast
qed

theorem search_backend_found_or_None_witness:
  "(\<exists>b \<in> set [fixture_backend ''fake_melbourne'' 1 [], fixture_backend ''fake_armonk'' 2 []].
      search_backend
        (fixture_provider [fixture_backend ''fake_melbourne'' 1 [], fixture_backend ''fake_armonk'' 2 []])
        ''fake_armonk'' = Inr (Some b) \<and> name b = Inr ''fake_armonk'')
   \<and> search_backend
        (fixture_provider [fixture_backend ''fake_melbourne'' 1 [], fixture_backend ''fake_armonk'' 2 []])
        ''fake_manila'' = Inr None"
proof -
  let ?bs = "[fixture_backend ''fake_melbourne'' 1 [], fixture_backend ''fake_armonk'' 2 []]"
  have h1: "backends (fixture_provider ?bs) = Inr ?bs"
    by (simp add: fixture_provider_def)
  have h2: "\<forall>b \<in> set ?bs. \<exists>n. name b = Inr n"
    by (simp add: fixture_backend_def)
  have present: "\<exists>b \<in> set ?bs. name b = Inr ''fake_armonk''"
    by (simp add: fixture_backend_def)
  have absent: "\<forall>b \<in> set ?bs. name b \<noteq> Inr ''fake_manila''"
    by (simp add: fixture_backend_def)
  from search_backend_found_or_None [OF h1 h2, of "''fake_armonk''"] present
  have "\<exists>b \<in> set ?bs. search_backend (fixture_provider ?bs) ''fake_armonk'' = Inr (Some b)
      \<and> name b = Inr ''fake_armonk''"
    by blast
  moreover from search_backend_found_or_None [OF h1 h2, of "''fake_manila''"] absent
  have "search_backend (fixture_provider ?bs) ''fake_manila'' = Inr None"
    by blast
  ultimately show ?thesis by blast
qed

text \<open>
  C9. When \<^verbatim>\<open>provider.backends()\<close> returns a list in which two or more backends have the
  searched name (and every name can be read), \<^verbatim>\<open>search_backend\<close> returns the last of them in
  the order of the list: the loop has no \<^verbatim>\<open>break\<close>, and each later match replaces the earlier
  one.
\<close>

theorem search_backend_last_match:
  assumes "backends provider = Inr bs"
    and "\<forall>b \<in> set bs. \<exists>n. name b = Inr n"
    and "2 \<le> length (filter (\<lambda>b. name b = Inr s) bs)"
  shows "search_backend provider s = Inr (Some (last (filter (\<lambda>b. name b = Inr s) bs)))"
proof -
  from assms(3) have "filter (\<lambda>b. name b = Inr s) bs \<noteq> []" by auto
  with assms(1,2) show ?thesis
    by (simp add: search_backend_def and_then_def search_loop_readable split: list.splits)
qed

theorem search_backend_last_match_witness:
  "search_backend
     (fixture_provider [fixture_backend ''fake_armonk'' 1 [], fixture_backend ''fake_melbourne'' 2 [],
        fixture_backend ''fake_armonk'' 3 [], fixture_backend ''fake_manila'' 4 []])
     ''fake_armonk'' = Inr (Some (fixture_backend ''fake_armonk'' 3 []))"
proof -
  let ?bs = "[fixture_backend ''fake_armonk'' 1 [], fixture_backend ''fake_melbourne'' 2 [],
        fixture_backend ''fake_armonk'' 3 [], fixture_backend ''fake_manila'' 4 []]"
  have h1: "backends (fixture_provider ?bs) = Inr ?bs"
    by (simp add: fixture_provider_def)
  have h2: "\<forall>b \<in> set ?bs. \<exists>n. name b = Inr n"
    by (simp add: fixture_backend_def)
  have h3: "2 \<le> length (filter (\<lambda>b. name b = Inr ''fake_armonk'') ?bs)"
    by (simp add: fixture_backend_def)
  from search_backend_last_match [OF h1 h2 h3] show ?thesis
    by (simp add: fixture_backend_def)
qed

section \<open>Properties of \<^verbatim>\<open>get_backend_info\<close>\<close>

text \<open>
  With each attribute one fixed outcome: when the twelve attributes can be read, the
  dictionary has exactly the twelve keys, each held once and mapped to the value of its
  attribute.
\<close>

lemma get_backend_info_twelve_keys:
  assumes "name backend = Inr a1"
    and "backend_version backend = Inr a2"
    and "online_date backend = Inr a3"
    and "dt backend = Inr a4"
    and "dtm backend = Inr a5"
    and "max_circuits backend = Inr a6"
    and "num_qubits backend = Inr a7"
    and "coupling_map backend = Inr a8"
    and "operation_names backend = Inr a9"
    and "instruction_durations backend = Inr a10"
    and "instruction_schedule_map backend = Inr a11"
    and "target backend = Inr a12"
  shows "\<exists>backend_info. get_backend_info backend = Inr backend_info
    \<and> set (keys backend_info) =
        {''name'', ''version'', ''online_date'', ''syst_time_resolution_input_signals'',
         ''syst_time_resolution_output_signals'', ''max_circuits_per_job'', ''num_qubits'',
         ''coupling_map'', ''operation_names'', ''instruction_durations'',
         ''instruction_schedule_map'', ''target''}
    \<and> length backend_info = 12
    \<and> distinct (keys backend_info)
    \<and> getitem backend_info ''name'' = Inr (PStr a1)
    \<and> getitem backend_info ''version'' = Inr (PObj a2)
    \<and> getitem backend_info ''online_date'' = Inr (PObj a3)
    \<and> getitem backend_info ''syst_time_resolution_input_signals'' = Inr (PObj a4)
    \<and> getitem backend_info ''syst_time_resolution_output_signals'' = Inr (PObj a5)
    \<and> getitem backend_info ''max_circuits_per_job'' = Inr (PObj a6)
    \<and> getitem backend_info ''num_qubits'' = Inr (PObj a7)
    \<and> getitem backend_info ''coupling_map'' = Inr (PObj a8)
    \<and> getitem backend_info ''operation_names'' = Inr (PObj a9)
    \<and> getitem backend_info ''instruction_durations'' = Inr (PObj a10)
    \<and> getitem backend_info ''instruction_schedule_map'' = Inr (PObj a11)
    \<and> getitem backend_info ''target'' = Inr (PTarget a12)"
  using assms by (simp add: get_backend_info_def and_then_def keys_def getitem_def)

section \<open>Properties of \<^verbatim>\<open>get_gate_errors\<close>\<close>

lemma target_entry_known:
  assumes "target backend = Inr t" and "map_of t gate = Some m" and "map_of m qbits = Some e"
  shows "target_entry backend gate qbits = Inr e"
  using assms by (simp add: target_entry_def target_gate_def and_then_def getitem_def)

lemma qbits_loop_run:
  assumes t: "target backend = Inr t" and m: "map_of t gate = Some m"
  shows "set qs \<subseteq> set (keys m) \<Longrightarrow> map_of ge gate = Some inner \<Longrightarrow>
     \<exists>inner'. qbits_loop backend gate qs ge = Inr (setitem ge gate inner') \<and>
        (\<forall>q. map_of inner' q =
           (if q \<in> set qs then map_option entry_error (map_of m q) else map_of inner q))"
proof (induction qs arbitrary: ge inner)
  case Nil
  then have "setitem ge gate inner = ge"
    by (simp add: setitem_def update_triv)
  then show ?case by (intro exI [of _ inner]) simp
next
  case (Cons q qs)
  from Cons.prems(1) have "q \<in> fst ` set m" by (simp add: keys_def)
  then obtain e where e: "map_of m q = Some e"
    by (metis domD dom_map_of_conv_image_fst)
  note entry = target_entry_known [OF t m e]
  let ?v = "entry_error e"
  let ?inner1 = "setitem inner q ?v"
  let ?ge1 = "setitem ge gate ?inner1"
  have step: "qbits_loop backend gate (q # qs) ge = qbits_loop backend gate qs ?ge1"
    using entry Cons.prems(2)
    by (cases e) (simp_all add: and_then_def attr_error_def entry_error_def set_gate_error_def getitem_def)
  have g1: "map_of ?ge1 gate = Some ?inner1"
    by (simp add: setitem_def update_conv')
  from Cons.prems(1) have sub: "set qs \<subseteq> set (keys m)" by simp
  from Cons.IH [OF sub g1] obtain inner' where
    run: "qbits_loop backend gate qs ?ge1 = Inr (setitem ?ge1 gate inner')" and
    vals: "\<forall>q'. map_of inner' q' =
      (if q' \<in> set qs then map_option entry_error (map_of m q') else map_of ?inner1 q')"
    by blast
  have "setitem ?ge1 gate inner' = setitem ge gate inner'"
    by (simp add: setitem_def)
  with step run have "qbits_loop backend gate (q # qs) ge = Inr (setitem ge gate inner')"
    by simp
  moreover have "\<forall>q'. map_of inner' q' =
      (if q' \<in> set (q # qs) then map_option entry_error (map_of m q') else map_of inner q')"
    using vals e by (simp add: setitem_def update_conv')
  ultimately show ?case by blast
qed

lemma gate_loop_run:
  assumes t: "target backend = Inr t"
  shows "set gs \<subseteq> set (keys t) \<Longrightarrow>
     \<exists>ge'. gate_loop backend gs ge = Inr ge' \<and>
        (\<forall>g. g \<notin> set gs \<longrightarrow> map_of ge' g = map_of ge g) \<and>
        (\<forall>g \<in> set gs. \<exists>inner m. map_of ge' g = Some inner \<and> map_of t g = Some m \<and> errors_of inner m)"
proof (induction gs arbitrary: ge)
  case Nil
  then show ?case by simp
next
  case (Cons gate gs)
  from Cons.prems have "gate \<in> fst ` set t" by (simp add: keys_def)
  then obtain m where m: "map_of t gate = Some m"
    by (metis domD dom_map_of_conv_image_fst)
  let ?ge0 = "setitem ge gate []"
  have g0: "map_of ?ge0 gate = Some []" by (simp add: setitem_def update_conv')
  from qbits_loop_run [OF t m subset_refl g0] obtain inner' where
    run: "qbits_loop backend gate (keys m) ?ge0 = Inr (setitem ?ge0 gate inner')" and
    vals: "\<forall>q. map_of inner' q =
      (if q \<in> set (keys m) then map_option entry_error (map_of m q) else map_of [] q)"
    by blast
  have inner': "errors_of inner' m"
    unfolding errors_of_def
  proof
    fix q
    show "map_of inner' q = map_option entry_error (map_of m q)"
    proof (cases "q \<in> set (keys m)")
      case True
      with vals show ?thesis by simp
    next
      case False
      then have "map_of m q = None" by (simp add: keys_def map_of_eq_None_iff)
      with vals False show ?thesis by simp
    qed
  qed
  let ?ge1 = "setitem ge gate inner'"
  have ge1: "setitem ?ge0 gate inner' = ?ge1" by (simp add: setitem_def)
  have step: "gate_loop backend (gate # gs) ge = gate_loop backend gs ?ge1"
    using t m run ge1 by (simp add: and_then_def target_gate_def getitem_def Let_def)
  from Cons.prems have sub: "set gs \<subseteq> set (keys t)" by simp
  from Cons.IH [OF sub, of ?ge1] obtain ge' where
    r: "gate_loop backend gs ?ge1 = Inr ge'" and
    keep: "\<forall>g. g \<notin> set gs \<longrightarrow> map_of ge' g = map_of ?ge1 g" and
    new: "\<forall>g \<in> set gs. \<exists>inner m. map_of ge' g = Some inner \<and> map_of t g = Some m \<and> errors_of inner m"
    by blast
  have "\<forall>g. g \<notin> set (gate # gs) \<longrightarrow> map_of ge' g = map_of ge g"
    using keep by (simp add: setitem_def update_conv')
  moreover have "\<forall>g \<in> set (gate # gs). \<exists>inner m. map_of ge' g = Some inner \<and> map_of t g = Some m \<and> errors_of inner m"
  proof
    fix g assume g: "g \<in> set (gate # gs)"
    show "\<exists>inner m. map_of ge' g = Some inner \<and> map_of t g = Some m \<and> errors_of inner m"
    proof (cases "g \<in> set gs")
      case True
      with new show ?thesis by blast
    next
      case False
      with g have "g = gate" by simp
      moreover from False keep have "map_of ge' g = map_of ?ge1 g" by blast
      ultimately have "map_of ge' g = Some inner'" by (simp add: setitem_def update_conv')
      with \<open>g = gate\<close> m inner' show ?thesis by blast
    qed
  qed
  ultimately show ?case using step r by simp
qed

lemma get_gate_errors_run:
  assumes t: "target backend = Inr t"
  shows "\<exists>ge. get_gate_errors backend = Inr ge \<and>
        (\<forall>g. g \<notin> set (keys t) \<longrightarrow> map_of ge g = None) \<and>
        (\<forall>g \<in> set (keys t). \<exists>inner m. map_of ge g = Some inner \<and> map_of t g = Some m \<and> errors_of inner m)"
  using gate_loop_run [OF t subset_refl, of "[]"] t
  by (simp add: get_gate_errors_def and_then_def)

lemma errors_of_keys: "errors_of inner m \<Longrightarrow> set (keys inner) = set (keys m)"
  unfolding set_keys_dom errors_of_def by (auto simp: dom_def)

text \<open>
  C2. For a backend whose target can be read, \<^verbatim>\<open>get_gate_errors\<close> returns a dictionary whose
  keys are exactly the gates of the target; for each gate the keys of the inner dictionary are
  exactly the qubit tuples of \<^verbatim>\<open>backend.target[gate]\<close>, and the value at a qubit tuple is the
  \<^verbatim>\<open>error\<close> field of the target entry when the entry is not \<^verbatim>\<open>None\<close>, and \<^verbatim>\<open>None\<close> when it is.
\<close>

theorem get_gate_errors_spec:
  assumes "target backend = Inr t"
  shows "\<exists>gate_errors. get_gate_errors backend = Inr gate_errors
     \<and> set (keys gate_errors) = set (keys t)
     \<and> (\<forall>gate \<in> set (keys t). \<exists>inner m.
           getitem gate_errors gate = Inr inner \<and> getitem t gate = Inr m
         \<and> set (keys inner) = set (keys m)
         \<and> (\<forall>qbits \<in> set (keys m). \<exists>entry.
               getitem m qbits = Inr entry
             \<and> getitem inner qbits = Inr (case entry of None \<Rightarrow> None | Some p \<Rightarrow> error p)))"
proof -
  from get_gate_errors_run [OF assms] obtain ge where
    run: "get_gate_errors backend = Inr ge" and
    out: "\<forall>g. g \<notin> set (keys t) \<longrightarrow> map_of ge g = None" and
    inn: "\<forall>g \<in> set (keys t). \<exists>inner m. map_of ge g = Some inner \<and> map_of t g = Some m \<and> errors_of inner m"
    by blast
  have dom: "set (keys ge) = set (keys t)"
  proof
    show "set (keys ge) \<subseteq> set (keys t)"
      using out unfolding set_keys_dom [of ge] by (auto simp: dom_def)
    show "set (keys t) \<subseteq> set (keys ge)"
      using inn unfolding set_keys_dom [of ge] by (auto simp: dom_def)
  qed
  have each: "\<exists>inner m. getitem ge gate = Inr inner \<and> getitem t gate = Inr m
         \<and> set (keys inner) = set (keys m)
         \<and> (\<forall>qbits \<in> set (keys m). \<exists>entry.
               getitem m qbits = Inr entry
             \<and> getitem inner qbits = Inr (case entry of None \<Rightarrow> None | Some p \<Rightarrow> error p))"
    if "gate \<in> set (keys t)" for gate
  proof -
    from inn that obtain inner m where
      i: "map_of ge gate = Some inner" and m: "map_of t gate = Some m" and e: "errors_of inner m"
      by blast
    have "\<exists>entry. getitem m qbits = Inr entry
        \<and> getitem inner qbits = Inr (case entry of None \<Rightarrow> None | Some p \<Rightarrow> error p)"
      if "qbits \<in> set (keys m)" for qbits
    proof -
      from that obtain entry where "map_of m qbits = Some entry"
        unfolding set_keys_dom by blast
      moreover with e have "map_of inner qbits = Some (entry_error entry)"
        by (simp add: errors_of_def)
      ultimately show ?thesis
        by (auto simp: getitem_Inr_iff entry_error_def)
    qed
    with i m errors_of_keys [OF e] show ?thesis
      by (auto simp: getitem_Inr_iff)
  qed
  from run dom each show ?thesis by blast
qed

theorem get_gate_errors_spec_witness:
  "\<exists>gate_errors inner.
     get_gate_errors (fixture_backend ''fake_armonk'' 2 fixture_target) = Inr gate_errors
     \<and> set (keys gate_errors) = {''cx'', ''measure'', ''delay''}
     \<and> getitem gate_errors ''cx'' = Inr inner
     \<and> set (keys inner) = {[0, 1], [1, 0]}
     \<and> getitem inner [0, 1] = Inr (Some 12)
     \<and> getitem inner [1, 0] = Inr None"
proof -
  let ?b = "fixture_backend ''fake_armonk'' 2 fixture_target"
  have h: "target ?b = Inr fixture_target" by (simp add: fixture_backend_def)
  from get_gate_errors_spec [OF h] obtain ge where
    run: "get_gate_errors ?b = Inr ge" and
    dom: "set (keys ge) = set (keys fixture_target)" and
    each: "\<forall>gate \<in> set (keys fixture_target). \<exists>inner m.
           getitem ge gate = Inr inner \<and> getitem fixture_target gate = Inr m
         \<and> set (keys inner) = set (keys m)
         \<and> (\<forall>qbits \<in> set (keys m). \<exists>entry.
               getitem m qbits = Inr entry
             \<and> getitem inner qbits = Inr (case entry of None \<Rightarrow> None | Some p \<Rightarrow> error p))"
    by blast
  have "''cx'' \<in> set (keys fixture_target)" by (simp add: fixture_target_def keys_def)
  with each obtain inner m where
    i: "getitem ge ''cx'' = Inr inner" and m: "getitem fixture_target ''cx'' = Inr m" and
    k: "set (keys inner) = set (keys m)" and
    v: "\<forall>qbits \<in> set (keys m). \<exists>entry.
               getitem m qbits = Inr entry
             \<and> getitem inner qbits = Inr (case entry of None \<Rightarrow> None | Some p \<Rightarrow> error p)"
    by blast
  from m have m': "m = [([0, 1], Some \<lparr>duration = Some 35, error = Some 12\<rparr>), ([1, 0], None)]"
    by (simp add: fixture_target_def getitem_def)
  from v have "getitem inner [0, 1] = Inr (Some 12)" and "getitem inner [1, 0] = Inr None"
    unfolding m' by (simp_all add: keys_def getitem_def)
  moreover from k have "set (keys inner) = {[0, 1], [1, 0]}"
    unfolding m' by (simp add: keys_def)
  moreover from dom have "set (keys ge) = {''cx'', ''measure'', ''delay''}"
    by (simp add: fixture_target_def keys_def)
  ultimately show ?thesis using run i by blast
qed

section \<open>Properties of \<^verbatim>\<open>create_options\<close>\<close>

text \<open>
  C3. For a shot count and a backend that is not \<^verbatim>\<open>None\<close>, when \<^verbatim>\<open>Options()\<close>,
  \<^verbatim>\<open>NoiseModel.from_backend(backend)\<close> and the reads of \<^verbatim>\<open>operation_names\<close> and
  \<^verbatim>\<open>coupling_map\<close> return, \<^verbatim>\<open>create_options\<close> returns the options object with
  \<^verbatim>\<open>execution.shots\<close> equal to the shot count, \<^verbatim>\<open>optimization_level\<close> and \<^verbatim>\<open>resilience_level\<close>
  equal to 0, and \<^verbatim>\<open>simulator\<close> the dictionary of the noise model built from the backend,
  the backend's operation names as \<^verbatim>\<open>basis_gates\<close> and its coupling map; every other
  field is as the constructor left it.
\<close>

theorem create_options_noisy:
  assumes "Options sdk = Inr options0"
    and "from_backend sdk backend = Inr noise_model"
    and "operation_names backend = Inr ops"
    and "coupling_map backend = Inr cmap"
  shows "\<exists>opts. create_options sdk nb_shots (Some backend) = Inr opts
    \<and> shots (execution opts) = Some nb_shots
    \<and> optimization_level opts = Some 0
    \<and> resilience_level opts = Some 0
    \<and> simulator opts = SimulatorDict
         [(''noise_model'', noise_model), (''basis_gates'', ops), (''coupling_map'', cmap)]
    \<and> other_execution (execution opts) = other_execution (execution options0)
    \<and> other_options opts = other_options options0"
  using assms by (simp add: create_options_def and_then_def)

theorem create_options_noisy_witness:
  "\<exists>opts. create_options fixture_sdk 1024 (Some (fixture_backend ''fake_melbourne'' 1 fixture_target))
      = Inr opts
    \<and> shots (execution opts) = Some 1024
    \<and> optimization_level opts = Some 0
    \<and> resilience_level opts = Some 0
    \<and> simulator opts = SimulatorDict
         [(''noise_model'', 30), (''basis_gates'', 8), (''coupling_map'', 7)]
    \<and> other_execution (execution opts) = other_execution (execution fixture_options)
    \<and> other_options opts = other_options fixture_options"
  by (rule create_options_noisy) (simp_all add: fixture_sdk_def fixture_backend_def)

text \<open>
  C4. For a shot count and no backend (the argument left at \<^verbatim>\<open>None\<close>), when \<^verbatim>\<open>Options()\<close>
  returns, \<^verbatim>\<open>create_options\<close> returns the options object with \<^verbatim>\<open>execution.shots\<close> equal to
  the shot count, \<^verbatim>\<open>optimization_level\<close> and \<^verbatim>\<open>resilience_level\<close> equal to 0, and
  \<^verbatim>\<open>simulator\<close> as the constructor left it: no noise model is built, whatever
  \<^verbatim>\<open>NoiseModel.from_backend\<close> would do.
\<close>

theorem create_options_ideal:
  assumes "Options sdk = Inr options0"
  shows "\<exists>opts. create_options sdk nb_shots None = Inr opts
    \<and> shots (execution opts) = Some nb_shots
    \<and> optimization_level opts = Some 0
    \<and> resilience_level opts = Some 0
    \<and> simulator opts = simulator options0
    \<and> other_execution (execution opts) = other_execution (execution options0)
    \<and> other_options opts = other_options options0"
  using assms by (simp add: create_options_def and_then_def)

theorem create_options_ideal_witness:
  "\<exists>opts. create_options (fixture_sdk\<lparr>from_backend := (\<lambda>b. Inl (SdkError ''NoiseError''))\<rparr>) 1024 None
      = Inr opts
    \<and> shots (execution opts) = Some 1024
    \<and> optimization_level opts = Some 0
    \<and> resilience_level opts = Some 0
    \<and> simulator opts = SimulatorOptions 22
    \<and> other_execution (execution opts) = 21
    \<and> other_options opts = 23"
  using create_options_ideal
    [of "fixture_sdk\<lparr>from_backend := (\<lambda>b. Inl (SdkError ''NoiseError''))\<rparr>" fixture_options 1024]
  by (simp add: fixture_sdk_def fixture_options_def)

section \<open>Properties of \<^verbatim>\<open>print_backend_info\<close>\<close>

lemma info_target_entry_known:
  assumes "map_of info ''target'' = Some (PTarget t)" and "map_of t gate = Some m"
    and "map_of m qbits = Some e"
  shows "info_target_entry info gate qbits = Inr e"
  using assms by (simp add: info_target_entry_def info_target_gate_def and_then_def getitem_def)

lemma print_qbits_loop_run:
  assumes i: "map_of info ''target'' = Some (PTarget t)" and m: "map_of t gate = Some m"
  shows "set qs \<subseteq> set (keys m) \<Longrightarrow>
    print_qbits_loop sdk info gate qs out = (Inr (), out @ qubit_lines sdk m qs)"
proof (induction qs arbitrary: out)
  case Nil
  show ?case by (simp add: io_result_def qubit_lines_def)
next
  case (Cons q qs)
  from Cons.prems obtain e where e: "map_of m q = Some e"
    unfolding set_keys_dom by auto
  note entry = info_target_entry_known [OF i m e]
  from Cons.prems have sub: "set qs \<subseteq> set (keys m)" by simp
  have step: "print_qbits_loop sdk info gate (q # qs) out =
      print_qbits_loop sdk info gate qs (out @ [qubit_line sdk q e])"
    using entry
    by (cases e)
      (simp_all add: io_then_def io_result_def print_line_def and_then_def attr_duration_def
        attr_error_def qubit_line_def none_line_def)
  show ?case
    unfolding step Cons.IH [OF sub] using e by (simp add: qubit_lines_def)
qed

lemma print_gate_loop_run:
  assumes i: "map_of info ''target'' = Some (PTarget t)"
  shows "set gs \<subseteq> set (keys t) \<Longrightarrow>
    print_gate_loop sdk info gs out = (Inr (), out @ gate_lines sdk t gs)"
proof (induction gs arbitrary: out)
  case Nil
  show ?case by (simp add: io_result_def gate_lines_def)
next
  case (Cons g gs)
  from Cons.prems obtain m where m: "map_of t g = Some m"
    unfolding set_keys_dom by auto
  from Cons.prems have sub: "set gs \<subseteq> set (keys t)" by simp
  have gate: "info_target_gate info g = Inr m"
    using i m by (simp add: info_target_gate_def and_then_def getitem_def)
  have step: "print_gate_loop sdk info (g # gs) out =
      print_gate_loop sdk info gs (out @ [tab @ '' '' @ g] @ qubit_lines sdk m (keys m))"
    using gate print_qbits_loop_run [OF i m subset_refl]
    by (simp add: io_then_def io_result_def print_line_def)
  show ?case
    unfolding step Cons.IH [OF sub] using m by (simp add: gate_lines_def)
qed

lemma get_backend_info_Inr:
  assumes "get_backend_info backend = Inr info"
  shows "\<exists>a1 a2 a3 a4 a5 a6 a7 a8 a9 a10 a11 a12.
    name backend = Inr a1 \<and> backend_version backend = Inr a2 \<and> online_date backend = Inr a3
    \<and> dt backend = Inr a4 \<and> dtm backend = Inr a5 \<and> max_circuits backend = Inr a6
    \<and> num_qubits backend = Inr a7 \<and> coupling_map backend = Inr a8
    \<and> operation_names backend = Inr a9 \<and> instruction_durations backend = Inr a10
    \<and> instruction_schedule_map backend = Inr a11 \<and> target backend = Inr a12
    \<and> info = [(''name'', PStr a1),
            (''version'', PObj a2),
            (''online_date'', PObj a3),
            (''syst_time_resolution_input_signals'', PObj a4),
            (''syst_time_resolution_output_signals'', PObj a5),
            (''max_circuits_per_job'', PObj a6),
            (''num_qubits'', PObj a7),
            (''coupling_map'', PObj a8),
            (''operation_names'', PObj a9),
            (''instruction_durations'', PObj a10),
            (''instruction_schedule_map'', PObj a11),
            (''target'', PTarget a12)]"
  using assms unfolding get_backend_info_def and_then_def
  by (auto split: sum.splits)

lemma print_backend_info_draw:
  assumes info: "get_backend_info backend = Inr info"
    and cm: "coupling_map backend = Inr cm"
    and t: "target backend = Inr t"
  shows "print_backend_info sdk info out =
    (case draw sdk cm of
       Inl e \<Rightarrow> (Inl e, out @ header_lines sdk info)
     | Inr drawing \<Rightarrow>
        (Inr (), out @ header_lines sdk info
           @ [''Operations names: '' @ '' '' @ py_str sdk (the (map_of info ''operation_names'')), ''Target:'']
           @ gate_lines sdk t (keys t)))"
proof -
  from get_backend_info_Inr [OF info] cm t obtain a1 a2 a3 a4 a5 a6 a7 a9 a10 a11 where
    form: "info = [(''name'', PStr a1),
            (''version'', PObj a2),
            (''online_date'', PObj a3),
            (''syst_time_resolution_input_signals'', PObj a4),
            (''syst_time_resolution_output_signals'', PObj a5),
            (''max_circuits_per_job'', PObj a6),
            (''num_qubits'', PObj a7),
            (''coupling_map'', PObj cm),
            (''operation_names'', PObj a9),
            (''instruction_durations'', PObj a10),
            (''instruction_schedule_map'', PObj a11),
            (''target'', PTarget t)]"
    by auto
  have look: "map_of info ''name'' = Some (PStr a1)"
    "map_of info ''version'' = Some (PObj a2)"
    "map_of info ''online_date'' = Some (PObj a3)"
    "map_of info ''syst_time_resolution_input_signals'' = Some (PObj a4)"
    "map_of info ''syst_time_resolution_output_signals'' = Some (PObj a5)"
    "map_of info ''max_circuits_per_job'' = Some (PObj a6)"
    "map_of info ''num_qubits'' = Some (PObj a7)"
    "map_of info ''coupling_map'' = Some (PObj cm)"
    "map_of info ''operation_names'' = Some (PObj a9)"
    "map_of info ''target'' = Some (PTarget t)"
    by (simp_all add: form)
  have keys: "info_target_keys info = Inr (keys t)"
    by (simp add: info_target_keys_def and_then_def getitem_def look)
  have loop: "\<And>out. print_gate_loop sdk info (keys t) out = (Inr (), out @ gate_lines sdk t (keys t))"
    by (rule print_gate_loop_run [OF look(10) subset_refl])
  show ?thesis
    unfolding print_backend_info_def
    by (cases "draw sdk cm")
      (simp_all add: keys loop io_then_def io_result_def print_line_def print_item_def
        call_draw_def and_then_def getitem_def header_lines_def look)
qed

lemma none_line_in_gate_lines:
  assumes "map_of t gate = Some m" and "map_of m qbits = Some None"
  shows "none_line sdk qbits \<in> set (gate_lines sdk t (keys t))"
proof -
  from assms(1) have g: "gate \<in> set (keys t)" unfolding set_keys_dom by blast
  from assms(2) have q: "qbits \<in> set (keys m)" unfolding set_keys_dom by blast
  from q assms(2) have "none_line sdk qbits \<in> set (qubit_lines sdk m (keys m))"
    by (force simp: qubit_lines_def qubit_line_def)
  with g assms(1) show ?thesis
    by (force simp: gate_lines_def)
qed

text \<open>
  C10. \<^verbatim>\<open>get_gate_errors\<close> and \<^verbatim>\<open>print_backend_info\<close> read \<^verbatim>\<open>.error\<close> and \<^verbatim>\<open>.duration\<close> of a
  target entry only after the test against \<^verbatim>\<open>None\<close>. In the model these reads raise
  \<^verbatim>\<open>AttributeError\<close> on \<^verbatim>\<open>None\<close>, and nothing catches it; yet for a backend whose target can
  be read both helpers return normally, whatever entries are \<^verbatim>\<open>None\<close>. For each such entry
  \<^verbatim>\<open>get_gate_errors\<close> stores \<^verbatim>\<open>None\<close>, and \<^verbatim>\<open>print_backend_info\<close>, given the dictionary of the
  backend and a coupling map whose \<^verbatim>\<open>draw()\<close> returns, prints the line
  \<^verbatim>\<open>Qubit(s) ...: duration=None, error=None\<close> (after two tabs).
\<close>

theorem none_entries_never_dereferenced:
  assumes "target backend = Inr t"
  shows "(\<exists>gate_errors. get_gate_errors backend = Inr gate_errors
           \<and> (\<forall>gate m qbits. getitem t gate = Inr m \<and> getitem m qbits = Inr None \<longrightarrow>
                 (\<exists>inner. getitem gate_errors gate = Inr inner \<and> getitem inner qbits = Inr None)))
       \<and> (\<forall>info cm drawing out.
             get_backend_info backend = Inr info \<and> coupling_map backend = Inr cm
               \<and> draw sdk cm = Inr drawing \<longrightarrow>
            (\<exists>lines. print_backend_info sdk info out = (Inr (), out @ lines)
               \<and> (\<forall>gate m qbits. getitem t gate = Inr m \<and> getitem m qbits = Inr None \<longrightarrow>
                     tab @ tab @ ''Qubit(s) '' @ str_qargs sdk qbits @ '': duration=None, error=None''
                       \<in> set lines)))"
proof (intro conjI allI impI)
  from get_gate_errors_run [OF assms] obtain ge where
    run: "get_gate_errors backend = Inr ge" and
    inn: "\<forall>g \<in> set (keys t). \<exists>inner m. map_of ge g = Some inner \<and> map_of t g = Some m \<and> errors_of inner m"
    by blast
  have "\<exists>inner. getitem ge gate = Inr inner \<and> getitem inner qbits = Inr None"
    if "getitem t gate = Inr m \<and> getitem m qbits = Inr None" for gate m qbits
  proof -
    from that have m: "map_of t gate = Some m" and q: "map_of m qbits = Some None"
      by (simp_all add: getitem_Inr_iff)
    from m have "gate \<in> set (keys t)" unfolding set_keys_dom by blast
    with inn m obtain inner where i: "map_of ge gate = Some inner" and e: "errors_of inner m"
      by fastforce
    from e q have "map_of inner qbits = Some None"
      by (simp add: errors_of_def entry_error_def)
    with i show ?thesis by (auto simp: getitem_Inr_iff)
  qed
  with run show "\<exists>gate_errors. get_gate_errors backend = Inr gate_errors
           \<and> (\<forall>gate m qbits. getitem t gate = Inr m \<and> getitem m qbits = Inr None \<longrightarrow>
                 (\<exists>inner. getitem gate_errors gate = Inr inner \<and> getitem inner qbits = Inr None))"
    by blast
next
  fix info cm drawing out
  assume h: "get_backend_info backend = Inr info \<and> coupling_map backend = Inr cm
               \<and> draw sdk cm = Inr drawing"
  let ?lines = "header_lines sdk info
           @ [''Operations names: '' @ '' '' @ py_str sdk (the (map_of info ''operation_names'')), ''Target:'']
           @ gate_lines sdk t (keys t)"
  from h print_backend_info_draw [of backend info cm t sdk out] assms
  have "print_backend_info sdk info out = (Inr (), out @ ?lines)" by simp
  moreover have "tab @ tab @ ''Qubit(s) '' @ str_qargs sdk qbits @ '': duration=None, error=None''
      \<in> set ?lines"
    if "getitem t gate = Inr m \<and> getitem m qbits = Inr None" for gate m qbits
    using that none_line_in_gate_lines [of t gate m qbits sdk]
    by (simp add: getitem_Inr_iff none_line_def)
  ultimately show "\<exists>lines. print_backend_info sdk info out = (Inr (), out @ lines)
               \<and> (\<forall>gate m qbits. getitem t gate = Inr m \<and> getitem m qbits = Inr None \<longrightarrow>
                     tab @ tab @ ''Qubit(s) '' @ str_qargs sdk qbits @ '': duration=None, error=None''
                       \<in> set lines)"
    by blast
qed

theorem none_entries_never_dereferenced_witness:
  "(\<exists>gate_errors inner.
       get_gate_errors (fixture_backend ''fake_armonk'' 2 fixture_target) = Inr gate_errors
     \<and> getitem gate_errors ''cx'' = Inr inner \<and> getitem inner [1, 0] = Inr None)
   \<and> (\<exists>info lines.
       get_backend_info (fixture_backend ''fake_armonk'' 2 fixture_target) = Inr info
     \<and> print_backend_info fixture_sdk info [] = (Inr (), lines)
     \<and> tab @ tab @ ''Qubit(s) qargs: duration=None, error=None'' \<in> set lines)"
proof -
  let ?b = "fixture_backend ''fake_armonk'' 2 fixture_target"
  have h: "target ?b = Inr fixture_target" by (simp add: fixture_backend_def)
  note inst = none_entries_never_dereferenced [OF h, of fixture_sdk]
  have entry: "getitem fixture_target ''cx'' = Inr [([0, 1], Some \<lparr>duration = Some 35, error = Some 12\<rparr>), ([1, 0], None)]
      \<and> getitem [([0, 1], Some \<lparr>duration = Some (35::nat), error = Some (12::nat)\<rparr>), ([1, 0], None)] [1, 0::nat] = Inr None"
    by (simp add: fixture_target_def getitem_def)
  from inst entry have first: "\<exists>gate_errors inner.
       get_gate_errors ?b = Inr gate_errors
     \<and> getitem gate_errors ''cx'' = Inr inner \<and> getitem inner [1, 0] = Inr None"
    by blast
  obtain info where info: "get_backend_info ?b = Inr info"
    by (simp add: get_backend_info_def fixture_backend_def and_then_def)
  have pre: "get_backend_info ?b = Inr info \<and> coupling_map ?b = Inr 7 \<and> draw fixture_sdk 7 = Inr 31"
    using info by (simp add: fixture_backend_def fixture_sdk_def)
  from inst pre obtain lines where
    p: "print_backend_info fixture_sdk info [] = (Inr (), [] @ lines)" and
    l: "\<forall>gate m qbits. getitem fixture_target gate = Inr m \<and> getitem m qbits = Inr None \<longrightarrow>
          tab @ tab @ ''Qubit(s) '' @ str_qargs fixture_sdk qbits @ '': duration=None, error=None'' \<in> set lines"
    by blast
  from l entry have "tab @ tab @ ''Qubit(s) '' @ str_qargs fixture_sdk [1, 0] @ '': duration=None, error=None'' \<in> set lines"
    by blast
  then have "tab @ tab @ ''Qubit(s) qargs: duration=None, error=None'' \<in> set lines"
    by (simp add: fixture_sdk_def)
  with info p first show ?thesis by auto
qed

section \<open>Exceptions pass through the helpers\<close>

lemma search_loop_raises:
  "search_loop bs s found = Inl e \<longleftrightarrow> first_raised (map (\<lambda>b. raised (name b)) bs) = Some e"
proof (induction bs arbitrary: found)
  case Nil
  show ?case by simp
next
  case (Cons b bs)
  show ?case
    by (cases "name b") (simp_all add: and_then_def raised_def Cons.IH)
qed

lemma search_backend_raises:
  "search_backend provider s = Inl e \<longleftrightarrow>
     first_raised (raised (backends provider) #
       (case backends provider of Inl x \<Rightarrow> [] | Inr bs \<Rightarrow> map (\<lambda>b. raised (name b)) bs)) = Some e"
  by (cases "backends provider")
    (simp_all add: search_backend_def and_then_def raised_def search_loop_raises)

lemma get_backend_info_raises:
  "get_backend_info backend = Inl e \<longleftrightarrow>
     first_raised [raised (name backend), raised (backend_version backend),
       raised (online_date backend), raised (dt backend), raised (dtm backend),
       raised (max_circuits backend), raised (num_qubits backend), raised (coupling_map backend),
       raised (operation_names backend), raised (instruction_durations backend),
       raised (instruction_schedule_map backend), raised (target backend)] = Some e"
  unfolding get_backend_info_def and_then_def raised_def
  by (simp split: sum.splits)

lemma get_gate_errors_raises:
  "get_gate_errors backend = Inl e \<longleftrightarrow> raised (target backend) = Some e"
proof (cases "target backend")
  case (Inl x)
  then show ?thesis by (simp add: get_gate_errors_def and_then_def raised_def)
next
  case (Inr t)
  from get_gate_errors_run [OF Inr] Inr show ?thesis by (auto simp: raised_def)
qed

lemma create_options_raises:
  "create_options sdk nb_shots backend = Inl e \<longleftrightarrow>
     first_raised (raised (Options sdk) #
       (case backend of
          None \<Rightarrow> []
        | Some b \<Rightarrow> [raised (from_backend sdk b), raised (operation_names b),
                     raised (coupling_map b)])) = Some e"
  unfolding create_options_def and_then_def raised_def
  by (simp split: sum.splits option.splits)

lemma print_backend_info_raises:
  assumes "get_backend_info backend = Inr info" and "coupling_map backend = Inr cm"
  shows "fst (print_backend_info sdk info out) = Inl e \<longleftrightarrow> raised (draw sdk cm) = Some e"
proof -
  from get_backend_info_Inr [OF assms(1)] obtain t where t: "target backend = Inr t" by blast
  show ?thesis
    unfolding print_backend_info_draw [OF assms t]
    by (simp add: raised_def split: sum.splits)
qed

text \<open>
  With each read one fixed outcome: \<^verbatim>\<open>search_backend\<close>, \<^verbatim>\<open>get_backend_info\<close>,
  \<^verbatim>\<open>get_gate_errors\<close> and \<^verbatim>\<open>create_options\<close> raise \<open>e\<close> exactly when \<open>e\<close> is the first
  exception among the SDK reads and calls they make, in the order of the source, and
  \<^verbatim>\<open>print_backend_info\<close>, given the dictionary of a backend, exactly when \<^verbatim>\<open>draw()\<close> does.
\<close>

lemma first_exception_in_source_order:
  "(search_backend provider s = Inl e \<longleftrightarrow>
      first_raised (raised (backends provider) #
        (case backends provider of Inl x \<Rightarrow> [] | Inr bs \<Rightarrow> map (\<lambda>b. raised (name b)) bs)) = Some e)
   \<and> (get_backend_info backend = Inl e \<longleftrightarrow>
      first_raised [raised (name backend), raised (backend_version backend),
        raised (online_date backend), raised (dt backend), raised (dtm backend),
        raised (max_circuits backend), raised (num_qubits backend), raised (coupling_map backend),
        raised (operation_names backend), raised (instruction_durations backend),
        raised (instruction_schedule_map backend), raised (target backend)] = Some e)
   \<and> (get_gate_errors backend = Inl e \<longleftrightarrow> raised (target backend) = Some e)
   \<and> (create_options sdk nb_shots optional_backend = Inl e \<longleftrightarrow>
      first_raised (raised (Options sdk) #
        (case optional_backend of
           None \<Rightarrow> []
         | Some b \<Rightarrow> [raised (from_backend sdk b), raised (operation_names b),
                      raised (coupling_map b)])) = Some e)
   \<and> (\<forall>info cm out.
        get_backend_info backend = Inr info \<and> coupling_map backend = Inr cm \<longrightarrow>
          (fst (print_backend_info sdk info out) = Inl e \<longleftrightarrow> raised (draw sdk cm) = Some e))"
  using search_backend_raises [of provider s e] get_backend_info_raises [of backend e]
    get_gate_errors_raises [of backend e] create_options_raises [of sdk nb_shots optional_backend e]
    print_backend_info_raises [of backend _ _ sdk _ e]
  by blast

section \<open>The script\<close>

lemma print_backend_info_returns:
  assumes "get_backend_info backend = Inr info" and "coupling_map backend = Inr cm"
    and "draw sdk cm = Inr drawing"
  shows "\<exists>lines. \<forall>out. print_backend_info sdk info out = (Inr (), out @ lines)"
proof -
  from get_backend_info_Inr [OF assms(1)] obtain t where t: "target backend = Inr t" by blast
  show ?thesis
    using print_backend_info_draw [OF assms(1,2) t, of sdk] assms(3) by auto
qed

text \<open>
  C7. The script builds one circuit on two qubits (\<^verbatim>\<open>h(0)\<close>, \<^verbatim>\<open>x(1)\<close>, \<^verbatim>\<open>cx(0,1)\<close>,
  \<^verbatim>\<open>measure_all()\<close>). When every SDK call it makes returns and both searched backends are
  found, it submits exactly two jobs: the circuit transpiled for the simulator, run first by
  the sampler made from the options of \<^verbatim>\<open>create_options(nb_shots)\<close> and then by the sampler
  made from the options of \<^verbatim>\<open>create_options(nb_shots, fake_Melbourne)\<close>, each between entering
  and leaving a session on the service and the simulator; the result of each job is printed
  after the line that announces the experiment.
\<close>

theorem main_block_submits_twice:
  assumes "FakeProviderForBackendV2 rt = Inr fake_provider"
    and "backends fake_provider = Inr fake_backends"
    and "search_backend fake_provider ''fake_melbourne'' = Inr (Some melbourne)"
    and "search_backend fake_provider ''fake_armonk'' = Inr (Some armonk)"
    and "get_backend_info melbourne = Inr melbourne_info"
    and "coupling_map melbourne = Inr cm1"
    and "draw sdk cm1 = Inr drawing1"
    and "get_backend_info armonk = Inr armonk_info"
    and "coupling_map armonk = Inr cm2"
    and "draw sdk cm2 = Inr drawing2"
    and "QiskitRuntimeService rt ''ibm_quantum'' [] ''ibm-q/open/main'' = Inr service"
    and "get_backend rt service ''ibmq_qasm_simulator'' = Inr sim"
    and "create_options sdk 1024 None = Inr ideal_options"
    and "create_options sdk 1024 (Some melbourne) = Inr noisy_options"
    and "Session rt service sim = Inr session"
    and "session_exit rt session = Inr ()"
    and "Sampler rt session ideal_options = Inr ideal_sampler"
    and "Sampler rt session noisy_options = Inr noisy_sampler"
    and "transpile rt \<lparr>qubits = 2, clbits = 2, calls = [H 0, X 1, CX 0 1, Measure_all]\<rparr> sim = Inr tqc"
    and "run rt ideal_sampler tqc = Inr ideal_job"
    and "job_result rt ideal_job = Inr ideal_result"
    and "run rt noisy_sampler tqc = Inr noisy_job"
    and "job_result rt noisy_job = Inr noisy_result"
  shows "\<exists>printed. main_block rt sdk w =
    (Inr (),
     \<lparr>stdout = stdout w @ printed @
        [''>> Running experiments on ideal backend...'', str_obj sdk ideal_result,
         ''>> Running experiments on noisy backend...'', str_obj sdk noisy_result],
      trace = trace w @
        [Enter session, Run ideal_sampler tqc, Exit session,
         Enter session, Run noisy_sampler tqc, Exit session]\<rparr>)"
proof -
  from print_backend_info_returns [OF assms(5,6,7)] obtain lines1 where
    p1: "\<And>out. print_backend_info sdk melbourne_info out = (Inr (), out @ lines1)" by blast
  from print_backend_info_returns [OF assms(8,9,10)] obtain lines2 where
    p2: "\<And>out. print_backend_info sdk armonk_info out = (Inr (), out @ lines2)" by blast
  define qc where "qc = \<lparr>qubits = 2, clbits = 2, calls = [H 0, X 1, CX 0 1, Measure_all]\<rparr>"
  have built: "measure_all (cx_gate 0 1 (x_gate 1 (h_gate 0 (QuantumCircuit 2 2)))) = qc"
    by (simp add: qc_def measure_all_def cx_gate_def x_gate_def h_gate_def QuantumCircuit_def)
  have tqc: "transpile rt qc sim = Inr tqc"
    using assms(19) by (simp only: qc_def)
  have body1: "experiment_body rt sdk qc sim ideal_options session v =
     (Inr (), v\<lparr>stdout := stdout v @ [str_obj sdk ideal_result],
                trace := trace v @ [Run ideal_sampler tqc]\<rparr>)" for v
    using assms(17,20,21) tqc
    by (simp add: experiment_body_def script_then_def script_result_def log_event_def
        on_stdout_def print_line_def)
  have body2: "experiment_body rt sdk qc sim noisy_options session v =
     (Inr (), v\<lparr>stdout := stdout v @ [str_obj sdk noisy_result],
                trace := trace v @ [Run noisy_sampler tqc]\<rparr>)" for v
    using assms(18,22,23) tqc
    by (simp add: experiment_body_def script_then_def script_result_def log_event_def
        on_stdout_def print_line_def)
  have s1: "with_session rt service sim (experiment_body rt sdk qc sim ideal_options) v =
     (Inr (), v\<lparr>stdout := stdout v @ [str_obj sdk ideal_result],
                trace := trace v @ [Enter session, Run ideal_sampler tqc, Exit session]\<rparr>)" for v
    using assms(15,16)
    by (simp add: with_session_def script_then_def script_result_def log_event_def body1)
  have s2: "with_session rt service sim (experiment_body rt sdk qc sim noisy_options) v =
     (Inr (), v\<lparr>stdout := stdout v @ [str_obj sdk noisy_result],
                trace := trace v @ [Enter session, Run noisy_sampler tqc, Exit session]\<rparr>)" for v
    using assms(15,16)
    by (simp add: with_session_def script_then_def script_result_def log_event_def body2)
  have "main_block rt sdk w =
    (Inr (),
     \<lparr>stdout = stdout w @
        (''>> Information about different backends'' # lines1 @ lines2 @ [[CHR 0x0A] @ '' SIMULATIONS'']) @
        [''>> Running experiments on ideal backend...'', str_obj sdk ideal_result,
         ''>> Running experiments on noisy backend...'', str_obj sdk noisy_result],
      trace = trace w @
        [Enter session, Run ideal_sampler tqc, Exit session,
         Enter session, Run noisy_sampler tqc, Exit session]\<rparr>)"
    unfolding main_block_def built Let_def
    using assms(1,2,3,4,5,8,11,12,13,14)
    by (simp add: script_then_def script_result_def on_stdout_def print_line_def
        get_backend_info_of_def p1 p2 s1 s2)
  then show ?thesis by blast
qed

theorem main_block_submits_twice_witness:
  "\<exists>printed. main_block fixture_runtime fixture_sdk \<lparr>stdout = [], trace = []\<rparr> =
    (Inr (),
     \<lparr>stdout = printed @
        [''>> Running experiments on ideal backend...'', ''obj'',
         ''>> Running experiments on noisy backend...'', ''obj''],
      trace = [Enter 42, Run 43 49, Exit 42, Enter 42, Run 44 49, Exit 42]\<rparr>)"
proof -
  let ?arm = "fixture_backend ''fake_armonk'' 1 [(''id'', [([0], None)])]"
  let ?mel = "fixture_backend ''fake_melbourne'' 2 fixture_target"
  let ?p = "fixture_provider [?arm, ?mel]"
  have a1: "FakeProviderForBackendV2 fixture_runtime = Inr ?p"
    by (simp add: fixture_runtime_def)
  have a2: "backends ?p = Inr [?arm, ?mel]"
    by (simp add: fixture_provider_def)
  have a3: "search_backend ?p ''fake_melbourne'' = Inr (Some ?mel)"
    by (simp add: search_backend_def fixture_provider_def fixture_backend_def and_then_def)
  have a4: "search_backend ?p ''fake_armonk'' = Inr (Some ?arm)"
    by (simp add: search_backend_def fixture_provider_def fixture_backend_def and_then_def)
  obtain mel_info where a5: "get_backend_info ?mel = Inr mel_info"
    by (simp add: get_backend_info_def fixture_backend_def and_then_def)
  have a6: "coupling_map ?mel = Inr 7" by (simp add: fixture_backend_def)
  have a7: "draw fixture_sdk 7 = Inr 31" by (simp add: fixture_sdk_def)
  obtain arm_info where a8: "get_backend_info ?arm = Inr arm_info"
    by (simp add: get_backend_info_def fixture_backend_def and_then_def)
  have a9: "coupling_map ?arm = Inr 7" by (simp add: fixture_backend_def)
  have a11: "QiskitRuntimeService fixture_runtime ''ibm_quantum'' [] ''ibm-q/open/main'' = Inr 40"
    by (simp add: fixture_runtime_def)
  have a12: "get_backend fixture_runtime 40 ''ibmq_qasm_simulator'' = Inr 41"
    by (simp add: fixture_runtime_def)
  let ?ideal = "fixture_options\<lparr>execution := \<lparr>shots = Some 1024, other_execution = 21\<rparr>,
      optimization_level := Some 0, resilience_level := Some 0\<rparr>"
  let ?noisy = "?ideal\<lparr>simulator := SimulatorDict
      [(''noise_model'', 30), (''basis_gates'', 8), (''coupling_map'', 7)]\<rparr>"
  have a13: "create_options fixture_sdk 1024 None = Inr ?ideal"
    by (simp add: create_options_def fixture_sdk_def fixture_options_def and_then_def)
  have a14: "create_options fixture_sdk 1024 (Some ?mel) = Inr ?noisy"
    by (simp add: create_options_def fixture_sdk_def fixture_options_def fixture_backend_def
        and_then_def)
  have a15: "Session fixture_runtime 40 41 = Inr 42" by (simp add: fixture_runtime_def)
  have a16: "session_exit fixture_runtime 42 = Inr ()" by (simp add: fixture_runtime_def)
  have a17: "Sampler fixture_runtime 42 ?ideal = Inr 43"
    by (simp add: fixture_runtime_def fixture_options_def)
  have a18: "Sampler fixture_runtime 42 ?noisy = Inr 44"
    by (simp add: fixture_runtime_def fixture_options_def)
  have a19: "transpile fixture_runtime
      \<lparr>qubits = 2, clbits = 2, calls = [H 0, X 1, CX 0 1, Measure_all]\<rparr> 41 = Inr 49"
    by (simp add: fixture_runtime_def)
  have a20: "run fixture_runtime 43 49 = Inr 53" by (simp add: fixture_runtime_def)
  have a21: "job_result fixture_runtime 53 = Inr 63" by (simp add: fixture_runtime_def)
  have a22: "run fixture_runtime 44 49 = Inr 54" by (simp add: fixture_runtime_def)
  have a23: "job_result fixture_runtime 54 = Inr 64" by (simp add: fixture_runtime_def)
  from main_block_submits_twice
    [OF a1 a2 a3 a4 a5 a6 a7 a8 a9 a7 a11 a12 a13 a14 a15 a16 a17 a18 a19 a20 a21 a22 a23,
      of "\<lparr>stdout = [], trace = []\<rparr>"]
  show ?thesis by (simp add: fixture_sdk_def)
qed

section \<open>Executions of the helpers over objects with state\<close>

lemma passes_through_returned:
  "passes_through new (Inr v) \<Longrightarrow> passes_through (new @ rest) r = passes_through rest r"
proof (induction new)
  case Nil
  show ?case by simp
next
  case (Cons a new)
  then show ?case by (cases a) simp_all
qed

lemma passes_through_raised:
  "passes_through new (Inl e :: 'a result) \<Longrightarrow> passes_through new (Inl e :: 'b result)"
proof (induction new)
  case Nil
  then show ?case by simp
next
  case (Cons a new)
  then show ?case by (cases a) simp_all
qed

lemma propagating_return: "propagating (prog_return v :: ('s, 'v) prog)"
  unfolding propagating_def
proof
  fix w :: "'s exec"
  have "prog_return v w = (Inr v, w) \<and> outcomes w = outcomes w @ []
      \<and> passes_through [] (Inr v :: 'v result)"
    by (simp add: prog_return_def)
  then show "\<exists>r w' new. prog_return v w = (r, w') \<and> outcomes w' = outcomes w @ new
      \<and> passes_through new r"
    by blast
qed

lemma propagating_emit: "propagating (emit line :: ('s, unit) prog)"
  unfolding propagating_def
proof
  fix w :: "'s exec"
  have "emit line w = (Inr (), w\<lparr>printed := printed w @ [line]\<rparr>)
      \<and> outcomes (w\<lparr>printed := printed w @ [line]\<rparr>) = outcomes w @ []
      \<and> passes_through [] (Inr () :: unit result)"
    by (simp add: emit_def)
  then show "\<exists>r w' new. emit line w = (r, w') \<and> outcomes w' = outcomes w @ new
      \<and> passes_through new r"
    by blast
qed

lemma propagating_attempt: "propagating (attempt r)"
proof -
  have "passes_through [raised r] r"
    by (cases r) (simp_all add: raised_def)
  then show ?thesis
    unfolding propagating_def attempt_def by auto
qed

lemma propagating_access: "propagating (access c :: ('s, 'v) prog)"
  unfolding propagating_def
proof
  fix w :: "'s exec"
  obtain r s' where c: "c (sdk_state w) = (r, s')" by (cases "c (sdk_state w)")
  have "passes_through [raised r] r"
    by (cases r) (simp_all add: raised_def)
  with c show "\<exists>r' w' new. access c w = (r', w') \<and> outcomes w' = outcomes w @ new
      \<and> passes_through new r'"
    by (auto simp: access_def)
qed

lemma propagating_then:
  fixes m :: "('s, 'u) prog" and f :: "'u \<Rightarrow> ('s, 'v) prog"
  assumes m: "propagating m" and f: "\<And>v. propagating (f v)"
  shows "propagating (prog_then m f)"
  unfolding propagating_def
proof
  fix w
  from m obtain r w1 n1 where
    m1: "m w = (r, w1)" and o1: "outcomes w1 = outcomes w @ n1" and p1: "passes_through n1 r"
    unfolding propagating_def by blast
  show "\<exists>r' w' new. prog_then m f w = (r', w') \<and> outcomes w' = outcomes w @ new
      \<and> passes_through new r'"
  proof (cases r)
    case (Inl e)
    with m1 have "prog_then m f w = (Inl e, w1)" by (simp add: prog_then_def)
    moreover from p1 Inl have "passes_through n1 (Inl e :: 'v result)"
      by (auto intro: passes_through_raised)
    ultimately show ?thesis using o1 by blast
  next
    case (Inr v)
    from f [of v] obtain r2 w2 n2 where
      f2: "f v w1 = (r2, w2)" and o2: "outcomes w2 = outcomes w1 @ n2" and p2: "passes_through n2 r2"
      unfolding propagating_def by blast
    from m1 Inr f2 have "prog_then m f w = (r2, w2)" by (simp add: prog_then_def)
    moreover from o1 o2 have "outcomes w2 = outcomes w @ (n1 @ n2)" by simp
    moreover from p1 Inr p2 have "passes_through (n1 @ n2) r2"
      by (simp add: passes_through_returned)
    ultimately show ?thesis by blast
  qed
qed

lemmas propagating_steps =
  propagating_then propagating_access propagating_attempt propagating_emit propagating_return

lemma propagating_search_loop_st:
  "propagating (search_loop_st bs s found)"
  by (induction bs arbitrary: found) (auto intro!: propagating_steps)

lemma propagating_search_backend_st: "propagating (search_backend_st provider s)"
  unfolding search_backend_st_def
  by (intro propagating_steps propagating_search_loop_st)

lemma propagating_get_backend_info_st: "propagating (get_backend_info_st backend)"
  unfolding get_backend_info_st_def
  by (intro propagating_steps)

lemma propagating_target_entry_st: "propagating (target_entry_st backend gate qbits)"
  unfolding target_entry_st_def target_gate_st_def
  by (intro propagating_steps)

lemma propagating_set_gate_error_st: "propagating (set_gate_error_st ge gate qbits v)"
  unfolding set_gate_error_st_def
  by (intro propagating_steps)

lemma propagating_qbits_loop_st: "propagating (qbits_loop_st backend gate qs ge)"
proof (induction qs arbitrary: ge)
  case Nil
  show ?case by (simp add: propagating_return)
next
  case (Cons q qs)
  show ?case
    unfolding qbits_loop_st.simps
    by (intro propagating_then propagating_target_entry_st Cons.IH)
      (auto intro!: propagating_steps propagating_target_entry_st propagating_set_gate_error_st)
qed

lemma propagating_gate_loop_st: "propagating (gate_loop_st backend gs ge)"
proof (induction gs arbitrary: ge)
  case Nil
  show ?case by (simp add: propagating_return)
next
  case (Cons g gs)
  show ?case
    unfolding gate_loop_st.simps Let_def target_gate_st_def
    by (intro propagating_steps propagating_qbits_loop_st Cons.IH)
qed

lemma propagating_get_gate_errors_st: "propagating (get_gate_errors_st backend)"
  unfolding get_gate_errors_st_def
  by (intro propagating_steps propagating_gate_loop_st)

lemma propagating_create_options_st: "propagating (create_options_st sdk nb_shots backend)"
  unfolding create_options_st_def Let_def
  by (cases backend) (auto intro!: propagating_steps)

lemma propagating_print_item_st: "propagating (print_item_st sdk info label key)"
  unfolding print_item_st_def
  by (intro propagating_steps)

lemma propagating_draw_st: "propagating (draw_st sdk info)"
  unfolding draw_st_def
  by (intro propagating_then propagating_attempt)
    (auto intro!: propagating_steps split: pyval.splits)

lemma propagating_info_target_keys_st: "propagating (info_target_keys_st info)"
  unfolding info_target_keys_st_def
  by (intro propagating_then propagating_attempt)
    (auto intro!: propagating_steps split: pyval.splits)

lemma propagating_info_target_gate_st: "propagating (info_target_gate_st info gate)"
  unfolding info_target_gate_st_def
  by (intro propagating_then propagating_attempt)
    (auto intro!: propagating_steps split: pyval.splits)

lemma propagating_info_target_entry_st: "propagating (info_target_entry_st info gate qbits)"
  unfolding info_target_entry_st_def
  by (intro propagating_steps propagating_info_target_gate_st)

lemma propagating_print_qbits_loop_st: "propagating (print_qbits_loop_st sdk info gate qs)"
proof (induction qs)
  case Nil
  show ?case by (simp add: propagating_return)
next
  case (Cons q qs)
  show ?case
    unfolding print_qbits_loop_st.simps
    by (intro propagating_then propagating_info_target_entry_st Cons.IH)
      (auto intro!: propagating_steps propagating_info_target_entry_st)
qed

lemma propagating_print_gate_loop_st: "propagating (print_gate_loop_st sdk info gs)"
proof (induction gs)
  case Nil
  show ?case by (simp add: propagating_return)
next
  case (Cons g gs)
  show ?case
    unfolding print_gate_loop_st.simps
    by (intro propagating_steps propagating_info_target_gate_st
        propagating_print_qbits_loop_st Cons.IH)
qed

lemma propagating_print_backend_info_st: "propagating (print_backend_info_st sdk info)"
  unfolding print_backend_info_st_def
  by (intro propagating_then propagating_emit propagating_print_item_st propagating_draw_st
      propagating_info_target_keys_st propagating_print_gate_loop_st)

section \<open>The two readings of the helpers agree\<close>

text \<open>
  On objects whose reads are fixed outcomes and leave the state alone, the helpers over
  objects with state return what the helpers over fixed outcomes return.
\<close>

lemma fixed_backend_reads:
  "read_name (fixed_backend b) = fixed (name b)"
  "read_backend_version (fixed_backend b) = fixed (backend_version b)"
  "read_online_date (fixed_backend b) = fixed (online_date b)"
  "read_dt (fixed_backend b) = fixed (dt b)"
  "read_dtm (fixed_backend b) = fixed (dtm b)"
  "read_max_circuits (fixed_backend b) = fixed (max_circuits b)"
  "read_num_qubits (fixed_backend b) = fixed (num_qubits b)"
  "read_coupling_map (fixed_backend b) = fixed (coupling_map b)"
  "read_operation_names (fixed_backend b) = fixed (operation_names b)"
  "read_instruction_durations (fixed_backend b) = fixed (instruction_durations b)"
  "read_instruction_schedule_map (fixed_backend b) = fixed (instruction_schedule_map b)"
  "read_target (fixed_backend b) = fixed (target b)"
  by (simp_all add: fixed_backend_def)

lemma access_fixed: "access (fixed r) w = (r, w\<lparr>outcomes := outcomes w @ [raised r]\<rparr>)"
  by (simp add: access_def fixed_def)

lemma snapshot_fixed: "snapshot (fixed_backend b) s = b"
  by (simp add: snapshot_def fixed_backend_reads fixed_def)

lemma search_loop_st_fixed:
  "fst (search_loop_st (map fixed_backend bs) s (map_option fixed_backend found) w) =
     map_sum id (map_option fixed_backend) (search_loop bs s found)"
proof (induction bs arbitrary: found w)
  case Nil
  show ?case by (simp add: prog_return_def)
next
  case (Cons b bs)
  show ?case
  proof (cases "name b")
    case (Inl e)
    then show ?thesis
      by (simp add: prog_then_def access_fixed fixed_backend_reads and_then_def)
  next
    case (Inr n)
    show ?thesis
    proof (cases "n = s")
      case True
      with Inr Cons.IH [of "Some b"] show ?thesis
        by (simp add: prog_then_def access_fixed fixed_backend_reads and_then_def)
    next
      case False
      with Inr Cons.IH [of found] show ?thesis
        by (simp add: prog_then_def access_fixed fixed_backend_reads and_then_def)
    qed
  qed
qed

lemma search_backend_st_fixed:
  "fst (search_backend_st (fixed_provider p) s w) =
     map_sum id (map_option fixed_backend) (search_backend p s)"
proof (cases "backends p")
  case (Inl e)
  then show ?thesis
    by (simp add: search_backend_st_def search_backend_def fixed_provider_def prog_then_def
        access_fixed and_then_def)
next
  case (Inr bs)
  then show ?thesis
    using search_loop_st_fixed [of bs s None]
    by (simp add: search_backend_st_def search_backend_def fixed_provider_def prog_then_def
        access_fixed and_then_def)
qed

lemma target_gate_st_fixed:
  "fst (target_gate_st (fixed_backend b) gate w) = target_gate b gate"
  by (simp add: target_gate_st_def target_gate_def prog_then_def access_fixed attempt_def
      fixed_backend_reads and_then_def split: sum.splits)

lemma target_entry_st_fixed:
  "fst (target_entry_st (fixed_backend b) gate q w) = target_entry b gate q"
  by (simp add: target_entry_st_def target_entry_def target_gate_st_def target_gate_def
      prog_then_def access_fixed attempt_def fixed_backend_reads and_then_def split: sum.splits)

lemma prog_then_fst:
  "fst (prog_then m f w) =
     (case fst (m w) of Inl e \<Rightarrow> Inl e | Inr v \<Rightarrow> fst (f v (snd (m w))))"
  by (simp add: prog_then_def split: prod.splits sum.splits)

lemma set_gate_error_st_fixed:
  "fst (set_gate_error_st ge gate q v w) = set_gate_error ge gate q v"
  by (simp add: set_gate_error_st_def set_gate_error_def prog_then_fst attempt_def
      prog_return_def and_then_def split: sum.splits)

lemma qbits_loop_st_fixed:
  "fst (qbits_loop_st (fixed_backend b) gate qs ge w) = qbits_loop b gate qs ge"
proof (induction qs arbitrary: ge w)
  case Nil
  show ?case by (simp add: prog_return_def)
next
  case (Cons q qs)
  show ?case
    by (simp add: prog_then_fst target_entry_st_fixed set_gate_error_st_fixed Cons.IH
        and_then_def attempt_def prog_return_def split: sum.splits)
qed

lemma gate_loop_st_fixed:
  "fst (gate_loop_st (fixed_backend b) gs ge w) = gate_loop b gs ge"
proof (induction gs arbitrary: ge w)
  case Nil
  show ?case by (simp add: prog_return_def)
next
  case (Cons g gs)
  show ?case
    by (simp add: prog_then_fst target_gate_st_fixed qbits_loop_st_fixed Cons.IH
        and_then_def Let_def split: sum.splits)
qed

lemma get_gate_errors_st_fixed:
  "fst (get_gate_errors_st (fixed_backend b) w) = get_gate_errors b"
  by (simp add: get_gate_errors_st_def get_gate_errors_def prog_then_fst access_fixed
      fixed_backend_reads gate_loop_st_fixed and_then_def split: sum.splits)

lemma create_options_st_fixed:
  "fst (create_options_st (fixed_sdk sdk) nb_shots (map_option fixed_backend backend) w) =
     create_options sdk nb_shots backend"
  by (cases backend)
    (simp_all add: create_options_st_def create_options_def fixed_sdk_def prog_then_fst
      access_fixed access_def fixed_backend_reads snapshot_fixed prog_return_def and_then_def
      Let_def fixed_def split: sum.splits)

lemma agrees_then:
  assumes "agrees m m'" and "\<And>v. agrees (f v) (f' v)"
  shows "agrees (prog_then m f) (io_then m' f')"
  unfolding agrees_def
proof
  fix w
  obtain r w1 where m: "m w = (r, w1)" by (cases "m w")
  with assms(1) have m': "m' (printed w) = (r, printed w1)"
    unfolding agrees_def by (metis fst_conv snd_conv prod.collapse)
  show "fst (prog_then m f w) = fst (io_then m' f' (printed w))
      \<and> printed (snd (prog_then m f w)) = snd (io_then m' f' (printed w))"
  proof (cases r)
    case (Inl e)
    with m m' show ?thesis by (simp add: prog_then_def io_then_def)
  next
    case (Inr v)
    with m m' assms(2) [of v] show ?thesis
      by (simp add: prog_then_def io_then_def agrees_def)
  qed
qed

lemma agrees_bind_result:
  assumes "agrees m (io_result r)" and "\<And>v. agrees (f v) (io_result (g v))"
  shows "agrees (prog_then m f) (io_result (and_then r g))"
proof -
  have "io_then (io_result r) (\<lambda>v. io_result (g v)) = io_result (and_then r g)"
    by (rule ext) (simp add: io_then_def io_result_def and_then_def split: sum.splits)
  with agrees_then [OF assms(1), of f "\<lambda>v. io_result (g v)"] assms(2) show ?thesis by simp
qed

lemma agrees_attempt: "agrees (attempt r) (io_result r)"
  by (simp add: agrees_def attempt_def io_result_def)

lemma agrees_return: "agrees (prog_return v) (io_result (Inr v))"
  by (simp add: agrees_def prog_return_def io_result_def)

lemma agrees_emit: "agrees (emit line) (print_line line)"
  by (simp add: agrees_def emit_def print_line_def)

lemma agrees_access_fixed: "agrees (access (fixed r)) (io_result r)"
  by (simp add: agrees_def access_fixed io_result_def)

lemma agrees_print_item: "agrees (print_item_st (fixed_sdk sdk) info label key) (print_item sdk info label key)"
  unfolding print_item_st_def print_item_def
  by (intro agrees_then agrees_attempt) (simp add: agrees_emit fixed_sdk_def)

lemma agrees_draw_object:
  "agrees (prog_then (access (draw_call (fixed_sdk sdk) cm)) (\<lambda>drawing. prog_return ()))
     (io_result (and_then (draw sdk cm) (\<lambda>drawing. Inr ())))"
proof -
  have "agrees (prog_then (access (fixed (draw sdk cm))) (\<lambda>drawing. prog_return ()))
      (io_result (and_then (draw sdk cm) (\<lambda>drawing. Inr ())))"
    by (intro agrees_bind_result agrees_access_fixed agrees_return)
  then show ?thesis by (simp add: fixed_sdk_def)
qed

lemma agrees_draw: "agrees (draw_st (fixed_sdk sdk) info) (io_result (call_draw sdk info))"
  unfolding draw_st_def call_draw_def
  apply (intro agrees_bind_result agrees_attempt)
  subgoal for v by (cases v) (simp_all add: agrees_attempt agrees_draw_object)
  done

lemma agrees_info_target_keys:
  "agrees (info_target_keys_st info) (io_result (info_target_keys info))"
  unfolding info_target_keys_st_def info_target_keys_def
  by (intro agrees_bind_result agrees_attempt)
    (simp add: agrees_attempt agrees_return split: pyval.splits)

lemma agrees_info_target_gate:
  "agrees (info_target_gate_st info gate) (io_result (info_target_gate info gate))"
  unfolding info_target_gate_st_def info_target_gate_def
  by (intro agrees_bind_result agrees_attempt)
    (simp add: agrees_attempt split: pyval.splits)

lemma agrees_info_target_entry:
  "agrees (info_target_entry_st info gate q) (io_result (info_target_entry info gate q))"
  unfolding info_target_entry_st_def info_target_entry_def
  by (intro agrees_bind_result agrees_info_target_gate agrees_attempt)

lemma agrees_print_qbits_loop:
  fixes sdk :: "('q, 'o) sdk" and info :: "('q, 'o) backend_info"
  shows "agrees (print_qbits_loop_st (fixed_sdk sdk) info gate qs :: ('s, unit) prog)
    (print_qbits_loop sdk info gate qs)"
proof (induction qs)
  case Nil
  show ?case by (simp add: agrees_return)
next
  case (Cons q qs)
  have again: "agrees (prog_then (info_target_entry_st info gate q :: ('s, 'o props option) prog)
        (\<lambda>e2. prog_return (e2 \<noteq> None)))
      (io_result (and_then (info_target_entry info gate q) (\<lambda>e2. Inr (e2 \<noteq> None))))"
    by (intro agrees_bind_result agrees_info_target_entry agrees_return)
  have test: "agrees (if e1 \<noteq> None
        then prog_then (info_target_entry_st info gate q :: ('s, 'o props option) prog)
          (\<lambda>e2. prog_return (e2 \<noteq> None))
        else prog_return False)
      (io_result (if e1 \<noteq> None
        then and_then (info_target_entry info gate q) (\<lambda>e2. Inr (e2 \<noteq> None))
        else Inr False))" for e1 :: "'o props option"
  proof (cases "e1 = None")
    case True
    then show ?thesis by (simp add: agrees_return)
  next
    case False
    with again show ?thesis by (simp only: if_True not_False_eq_True)
  qed
  have str: "strings (fixed_sdk sdk) = sdk" by (simp add: fixed_sdk_def)
  have full: "agrees
      (prog_then (prog_then (info_target_entry_st info gate q :: ('s, 'o props option) prog)
         (\<lambda>e3. attempt (attr_duration e3))) (\<lambda>d.
       prog_then (prog_then (info_target_entry_st info gate q) (\<lambda>e4. attempt (attr_error e4))) (\<lambda>e.
         emit (tab @ tab @ ''Qubit(s) '' @ str_qargs sdk q @ '': duration=''
               @ str_opt sdk d @ '', error='' @ str_opt sdk e))))
      (io_then (io_result (and_then (info_target_entry info gate q) attr_duration)) (\<lambda>d.
       io_then (io_result (and_then (info_target_entry info gate q) attr_error)) (\<lambda>e.
         print_line (tab @ tab @ ''Qubit(s) '' @ str_qargs sdk q @ '': duration=''
                     @ str_opt sdk d @ '', error='' @ str_opt sdk e))))"
    by (intro agrees_then agrees_bind_result agrees_info_target_entry agrees_attempt agrees_emit)
  have line: "agrees
      (if both
       then prog_then (prog_then (info_target_entry_st info gate q :: ('s, 'o props option) prog)
              (\<lambda>e3. attempt (attr_duration e3))) (\<lambda>d.
            prog_then (prog_then (info_target_entry_st info gate q) (\<lambda>e4. attempt (attr_error e4))) (\<lambda>e.
              emit (tab @ tab @ ''Qubit(s) '' @ str_qargs sdk q @ '': duration=''
                    @ str_opt sdk d @ '', error='' @ str_opt sdk e)))
       else emit (tab @ tab @ ''Qubit(s) '' @ str_qargs sdk q @ '': duration=None, error=None''))
      (if both
       then io_then (io_result (and_then (info_target_entry info gate q) attr_duration)) (\<lambda>d.
            io_then (io_result (and_then (info_target_entry info gate q) attr_error)) (\<lambda>e.
              print_line (tab @ tab @ ''Qubit(s) '' @ str_qargs sdk q @ '': duration=''
                          @ str_opt sdk d @ '', error='' @ str_opt sdk e)))
       else print_line (tab @ tab @ ''Qubit(s) '' @ str_qargs sdk q @ '': duration=None, error=None''))"
    for both
  proof (cases both)
    case True
    with full show ?thesis by (simp only: if_True)
  next
    case False
    then show ?thesis by (simp only: if_False agrees_emit)
  qed
  show ?case
    unfolding print_qbits_loop_st.simps print_qbits_loop.simps str
    by (intro agrees_then agrees_info_target_entry test line Cons.IH)
qed

lemma agrees_print_gate_loop:
  "agrees (print_gate_loop_st (fixed_sdk sdk) info gs) (print_gate_loop sdk info gs)"
proof (induction gs)
  case Nil
  show ?case by (simp add: agrees_return)
next
  case (Cons g gs)
  show ?case
    unfolding print_gate_loop_st.simps print_gate_loop.simps
    by (intro agrees_then agrees_emit agrees_info_target_gate agrees_print_qbits_loop Cons.IH)
qed

lemma print_backend_info_st_fixed:
  "agrees (print_backend_info_st (fixed_sdk sdk) info) (print_backend_info sdk info)"
  unfolding print_backend_info_st_def print_backend_info_def
  by (intro agrees_then agrees_emit agrees_print_item agrees_draw agrees_info_target_keys
      agrees_print_gate_loop)

section \<open>\<^verbatim>\<open>get_backend_info\<close> and the state of the backend\<close>

lemma get_backend_info_st_fixed:
  "fst (get_backend_info_st (fixed_backend b) w) = get_backend_info b"
  unfolding get_backend_info_st_def get_backend_info_def
  by (simp add: fixed_backend_def fixed_def access_def prog_then_def prog_return_def
      and_then_def split: sum.splits)

text \<open>
  C5 (amended). For a backend whose twelve attributes can be read,
  \<^verbatim>\<open>get_backend_info\<close> returns a dictionary whose keys are exactly the twelve names, each held
  once and mapped to the value that the read of its attribute returned. The function reads
  each of the twelve attributes once, in the order of the dictionary, and does nothing else
  to the backend: it leaves the backend in the state the last read leaves it in, which is the
  state before the call when no read changes the state. A read that changes the state of its
  object does change the backend.
\<close>

theorem get_backend_info_st_only_reads:
  assumes "read_name backend (sdk_state w) = (Inr a1, s1)"
    and "read_backend_version backend s1 = (Inr a2, s2)"
    and "read_online_date backend s2 = (Inr a3, s3)"
    and "read_dt backend s3 = (Inr a4, s4)"
    and "read_dtm backend s4 = (Inr a5, s5)"
    and "read_max_circuits backend s5 = (Inr a6, s6)"
    and "read_num_qubits backend s6 = (Inr a7, s7)"
    and "read_coupling_map backend s7 = (Inr a8, s8)"
    and "read_operation_names backend s8 = (Inr a9, s9)"
    and "read_instruction_durations backend s9 = (Inr a10, s10)"
    and "read_instruction_schedule_map backend s10 = (Inr a11, s11)"
    and "read_target backend s11 = (Inr a12, s12)"
  shows "\<exists>backend_info w'. get_backend_info_st backend w = (Inr backend_info, w')
    \<and> set (keys backend_info) =
        {''name'', ''version'', ''online_date'', ''syst_time_resolution_input_signals'',
         ''syst_time_resolution_output_signals'', ''max_circuits_per_job'', ''num_qubits'',
         ''coupling_map'', ''operation_names'', ''instruction_durations'',
         ''instruction_schedule_map'', ''target''}
    \<and> length backend_info = 12
    \<and> distinct (keys backend_info)
    \<and> getitem backend_info ''name'' = Inr (PStr a1)
    \<and> getitem backend_info ''version'' = Inr (PObj a2)
    \<and> getitem backend_info ''online_date'' = Inr (PObj a3)
    \<and> getitem backend_info ''syst_time_resolution_input_signals'' = Inr (PObj a4)
    \<and> getitem backend_info ''syst_time_resolution_output_signals'' = Inr (PObj a5)
    \<and> getitem backend_info ''max_circuits_per_job'' = Inr (PObj a6)
    \<and> getitem backend_info ''num_qubits'' = Inr (PObj a7)
    \<and> getitem backend_info ''coupling_map'' = Inr (PObj a8)
    \<and> getitem backend_info ''operation_names'' = Inr (PObj a9)
    \<and> getitem backend_info ''instruction_durations'' = Inr (PObj a10)
    \<and> getitem backend_info ''instruction_schedule_map'' = Inr (PObj a11)
    \<and> getitem backend_info ''target'' = Inr (PTarget a12)
    \<and> sdk_state w' = s12
    \<and> outcomes w' = outcomes w @ replicate 12 None
    \<and> printed w' = printed w
    \<and> (leaves_unchanged (read_name backend) \<and> leaves_unchanged (read_backend_version backend)
        \<and> leaves_unchanged (read_online_date backend) \<and> leaves_unchanged (read_dt backend)
        \<and> leaves_unchanged (read_dtm backend) \<and> leaves_unchanged (read_max_circuits backend)
        \<and> leaves_unchanged (read_num_qubits backend) \<and> leaves_unchanged (read_coupling_map backend)
        \<and> leaves_unchanged (read_operation_names backend)
        \<and> leaves_unchanged (read_instruction_durations backend)
        \<and> leaves_unchanged (read_instruction_schedule_map backend)
        \<and> leaves_unchanged (read_target backend)
        \<longrightarrow> sdk_state w' = sdk_state w)"
proof -
  let ?info = "[(''name'', PStr a1),
            (''version'', PObj a2),
            (''online_date'', PObj a3),
            (''syst_time_resolution_input_signals'', PObj a4),
            (''syst_time_resolution_output_signals'', PObj a5),
            (''max_circuits_per_job'', PObj a6),
            (''num_qubits'', PObj a7),
            (''coupling_map'', PObj a8),
            (''operation_names'', PObj a9),
            (''instruction_durations'', PObj a10),
            (''instruction_schedule_map'', PObj a11),
            (''target'', PTarget a12)]"
  let ?w' = "w\<lparr>sdk_state := s12, outcomes := outcomes w @ replicate 12 None\<rparr>"
  have rep: "replicate 12 (None :: exc option) =
      [None, None, None, None, None, None, None, None, None, None, None, None]"
    by (simp add: numeral_eq_Suc)
  have run: "get_backend_info_st backend w = (Inr ?info, ?w')"
    unfolding get_backend_info_st_def rep
    using assms
    by (simp add: access_def prog_then_def prog_return_def raised_def)
  have same: "s12 = sdk_state w"
    if "leaves_unchanged (read_name backend) \<and> leaves_unchanged (read_backend_version backend)
        \<and> leaves_unchanged (read_online_date backend) \<and> leaves_unchanged (read_dt backend)
        \<and> leaves_unchanged (read_dtm backend) \<and> leaves_unchanged (read_max_circuits backend)
        \<and> leaves_unchanged (read_num_qubits backend) \<and> leaves_unchanged (read_coupling_map backend)
        \<and> leaves_unchanged (read_operation_names backend)
        \<and> leaves_unchanged (read_instruction_durations backend)
        \<and> leaves_unchanged (read_instruction_schedule_map backend)
        \<and> leaves_unchanged (read_target backend)"
  proof -
    have step: "t = s" if "leaves_unchanged c" and "c s = (r, t)" for c :: "('s, 'x) call" and s t r
      using that unfolding leaves_unchanged_def by (metis snd_conv)
    from that assms have "s1 = sdk_state w" "s2 = s1" "s3 = s2" "s4 = s3" "s5 = s4" "s6 = s5"
      "s7 = s6" "s8 = s7" "s9 = s8" "s10 = s9" "s11 = s10" "s12 = s11"
      by (blast intro: step)+
    then show ?thesis by simp
  qed
  show ?thesis
    apply (rule exI [of _ ?info], rule exI [of _ ?w'])
    apply (intro conjI impI)
    using run same by (simp_all add: keys_def getitem_def)
qed

theorem get_backend_info_st_only_reads_witness:
  "\<exists>backend_info w'.
     get_backend_info_st (fixed_backend (fixture_backend ''fake_armonk'' 2 fixture_target)) start
       = (Inr backend_info, w')
     \<and> length backend_info = 12
     \<and> getitem backend_info ''name'' = Inr (PStr ''fake_armonk'')
     \<and> getitem backend_info ''syst_time_resolution_output_signals'' = Inr (PObj 3)
     \<and> getitem backend_info ''target'' = Inr (PTarget fixture_target)
     \<and> sdk_state w' = sdk_state start
     \<and> outcomes w' = replicate 12 None
     \<and> printed w' = []"
proof -
  let ?b = "fixed_backend (fixture_backend ''fake_armonk'' 2 fixture_target)
      :: (nat list, nat, nat) backend_object"
  note reads = fixed_backend_reads fixed_def fixture_backend_def start_def
  have unchanged:
    "leaves_unchanged (read_name ?b) \<and> leaves_unchanged (read_backend_version ?b)
        \<and> leaves_unchanged (read_online_date ?b) \<and> leaves_unchanged (read_dt ?b)
        \<and> leaves_unchanged (read_dtm ?b) \<and> leaves_unchanged (read_max_circuits ?b)
        \<and> leaves_unchanged (read_num_qubits ?b) \<and> leaves_unchanged (read_coupling_map ?b)
        \<and> leaves_unchanged (read_operation_names ?b)
        \<and> leaves_unchanged (read_instruction_durations ?b)
        \<and> leaves_unchanged (read_instruction_schedule_map ?b)
        \<and> leaves_unchanged (read_target ?b)"
    by (simp add: leaves_unchanged_def reads)
  have "\<exists>backend_info w'. get_backend_info_st ?b start = (Inr backend_info, w')
    \<and> set (keys backend_info) =
        {''name'', ''version'', ''online_date'', ''syst_time_resolution_input_signals'',
         ''syst_time_resolution_output_signals'', ''max_circuits_per_job'', ''num_qubits'',
         ''coupling_map'', ''operation_names'', ''instruction_durations'',
         ''instruction_schedule_map'', ''target''}
    \<and> length backend_info = 12
    \<and> distinct (keys backend_info)
    \<and> getitem backend_info ''name'' = Inr (PStr ''fake_armonk'')
    \<and> getitem backend_info ''version'' = Inr (PObj 2)
    \<and> getitem backend_info ''online_date'' = Inr (PObj 20231119)
    \<and> getitem backend_info ''syst_time_resolution_input_signals'' = Inr (PObj 2)
    \<and> getitem backend_info ''syst_time_resolution_output_signals'' = Inr (PObj 3)
    \<and> getitem backend_info ''max_circuits_per_job'' = Inr (PObj 900)
    \<and> getitem backend_info ''num_qubits'' = Inr (PObj 15)
    \<and> getitem backend_info ''coupling_map'' = Inr (PObj 7)
    \<and> getitem backend_info ''operation_names'' = Inr (PObj 8)
    \<and> getitem backend_info ''instruction_durations'' = Inr (PObj 9)
    \<and> getitem backend_info ''instruction_schedule_map'' = Inr (PObj 10)
    \<and> getitem backend_info ''target'' = Inr (PTarget fixture_target)
    \<and> sdk_state w' = 0
    \<and> outcomes w' = outcomes start @ replicate 12 None
    \<and> printed w' = printed start
    \<and> (leaves_unchanged (read_name ?b) \<and> leaves_unchanged (read_backend_version ?b)
        \<and> leaves_unchanged (read_online_date ?b) \<and> leaves_unchanged (read_dt ?b)
        \<and> leaves_unchanged (read_dtm ?b) \<and> leaves_unchanged (read_max_circuits ?b)
        \<and> leaves_unchanged (read_num_qubits ?b) \<and> leaves_unchanged (read_coupling_map ?b)
        \<and> leaves_unchanged (read_operation_names ?b)
        \<and> leaves_unchanged (read_instruction_durations ?b)
        \<and> leaves_unchanged (read_instruction_schedule_map ?b)
        \<and> leaves_unchanged (read_target ?b)
        \<longrightarrow> sdk_state w' = sdk_state start)"
    by (rule get_backend_info_st_only_reads) (simp_all add: reads)
  with unchanged show ?thesis
    by (auto simp: start_def)
qed

text \<open>
  C5 as first stated, "without modifying the backend", fails on a backend that builds its
  target when the property is first read: the call returns the dictionary and leaves the
  backend with its target built.
\<close>

theorem get_backend_info_st_changes_lazy_backend:
  "fst (get_backend_info_st lazy_backend \<lparr>sdk_state = False, outcomes = [], printed = []\<rparr>) =
     Inr [(''name'', PStr ''fake_armonk''),
          (''version'', PObj 2),
          (''online_date'', PObj 20231119),
          (''syst_time_resolution_input_signals'', PObj 2),
          (''syst_time_resolution_output_signals'', PObj 3),
          (''max_circuits_per_job'', PObj 900),
          (''num_qubits'', PObj 15),
          (''coupling_map'', PObj 7),
          (''operation_names'', PObj 8),
          (''instruction_durations'', PObj 9),
          (''instruction_schedule_map'', PObj 10),
          (''target'', PTarget fixture_target)]
   \<and> sdk_state (snd (get_backend_info_st lazy_backend
        \<lparr>sdk_state = False, outcomes = [], printed = []\<rparr>))
     \<noteq> sdk_state \<lparr>sdk_state = False, outcomes = [], printed = []\<rparr>"
  by (simp add: get_backend_info_st_def lazy_backend_def fixed_backend_reads fixed_def
      fixture_backend_def access_def prog_then_def prog_return_def)

section \<open>No helper catches an exception or tries again\<close>

text \<open>
  C6. No helper catches or changes an exception, and none tries again. In every execution of
  \<^verbatim>\<open>search_backend\<close>, \<^verbatim>\<open>get_backend_info\<close>, \<^verbatim>\<open>print_backend_info\<close>, \<^verbatim>\<open>get_gate_errors\<close> and
  \<^verbatim>\<open>create_options\<close>, on any arguments and from any state of the SDK, look at the outcomes
  of the operations the helper performed that can raise (every read of a property and call
  of the SDK, every subscript, every read of a field of a target entry), in the order
  performed. Either none of them raised and the helper returns; or the first one that raised
  is the last operation the helper performed, and the helper raises the same exception.
\<close>

theorem helpers_stop_at_first_exception:
  "(\<exists>r w' new. search_backend_st provider s w = (r, w')
        \<and> outcomes w' = outcomes w @ new \<and> passes_through new r)
   \<and> (\<exists>r w' new. get_backend_info_st backend w = (r, w')
        \<and> outcomes w' = outcomes w @ new \<and> passes_through new r)
   \<and> (\<exists>r w' new. print_backend_info_st sdk backend_info w = (r, w')
        \<and> outcomes w' = outcomes w @ new \<and> passes_through new r)
   \<and> (\<exists>r w' new. get_gate_errors_st backend w = (r, w')
        \<and> outcomes w' = outcomes w @ new \<and> passes_through new r)
   \<and> (\<exists>r w' new. create_options_st sdk nb_shots optional_backend w = (r, w')
        \<and> outcomes w' = outcomes w @ new \<and> passes_through new r)"
  using propagating_search_backend_st [of provider s]
    propagating_get_backend_info_st [of backend]
    propagating_print_backend_info_st [of sdk backend_info]
    propagating_get_gate_errors_st [of backend]
    propagating_create_options_st [of sdk nb_shots optional_backend]
  unfolding propagating_def by blast

theorem helpers_stop_at_first_exception_witness:
  "search_backend_st
      \<lparr>backends_call = counting (Inr [counting_backend ''fake_armonk'' 1 [],
         (counting_backend ''fake_melbourne'' 2 [])\<lparr>read_name := busy_at 2 ''fake_melbourne''\<rparr>,
         counting_backend ''fake_manila'' 3 []])\<rparr>
      ''fake_armonk'' start
     = (Inl (SdkError ''busy''),
        \<lparr>sdk_state = 3, outcomes = [None, None, Some (SdkError ''busy'')], printed = []\<rparr>)
   \<and> get_backend_info_st ((counting_backend ''fake_armonk'' 1 [])\<lparr>read_dtm := busy_at 4 3\<rparr>) start
     = (Inl (SdkError ''busy''),
        \<lparr>sdk_state = 5, outcomes = [None, None, None, None, Some (SdkError ''busy'')], printed = []\<rparr>)
   \<and> print_backend_info_st counting_sdk [] start
     = (Inl KeyError, \<lparr>sdk_state = 0, outcomes = [Some KeyError], printed = []\<rparr>)
   \<and> get_gate_errors_st
        ((counting_backend ''fake_armonk'' 1 [])
           \<lparr>read_target := (\<lambda>s. (Inr (if s = 0 then [(''cx'', [])] else []), Suc s))\<rparr>) start
     = (Inl KeyError, \<lparr>sdk_state = 2, outcomes = [None, None, Some KeyError], printed = []\<rparr>)
   \<and> create_options_st (counting_sdk\<lparr>from_backend_call := (\<lambda>b. busy_at 1 30)\<rparr>) 1024
        (Some (counting_backend ''fake_melbourne'' 2 fixture_target)) start
     = (Inl (SdkError ''busy''),
        \<lparr>sdk_state = 2, outcomes = [None, Some (SdkError ''busy'')], printed = []\<rparr>)"
proof -
  let ?p = "\<lparr>backends_call = counting (Inr [counting_backend ''fake_armonk'' 1 [],
         (counting_backend ''fake_melbourne'' 2 [])\<lparr>read_name := busy_at 2 ''fake_melbourne''\<rparr>,
         counting_backend ''fake_manila'' 3 []])\<rparr>"
  let ?b = "(counting_backend ''fake_armonk'' 1 [])\<lparr>read_dtm := busy_at 4 3\<rparr>"
  let ?g = "(counting_backend ''fake_armonk'' 1 [])
           \<lparr>read_target := (\<lambda>s. (Inr (if s = 0 then [(''cx'', [])] else []), Suc s))\<rparr>"
  let ?sdk = "counting_sdk\<lparr>from_backend_call := (\<lambda>b. busy_at 1 30)\<rparr>"
  let ?m = "counting_backend ''fake_melbourne'' 2 fixture_target"
  note defs = start_def counting_backend_def counting_sdk_def counting_def busy_at_def
    access_def attempt_def emit_def prog_then_def prog_return_def raised_def getitem_def
  have 1: "search_backend_st ?p ''fake_armonk'' start
     = (Inl (SdkError ''busy''),
        \<lparr>sdk_state = 3, outcomes = [None, None, Some (SdkError ''busy'')], printed = []\<rparr>)"
    using helpers_stop_at_first_exception
      [where provider = ?p and s = "''fake_armonk''" and w = start, THEN conjunct1]
    by (simp add: search_backend_st_def defs)
  have 2: "get_backend_info_st ?b start
     = (Inl (SdkError ''busy''),
        \<lparr>sdk_state = 5, outcomes = [None, None, None, None, Some (SdkError ''busy'')], printed = []\<rparr>)"
    using helpers_stop_at_first_exception
      [where backend = ?b and w = start, THEN conjunct2, THEN conjunct1]
    by (simp add: get_backend_info_st_def defs)
  have 3: "print_backend_info_st counting_sdk [] start
     = (Inl KeyError, \<lparr>sdk_state = 0, outcomes = [Some KeyError], printed = []\<rparr>)"
    using helpers_stop_at_first_exception
      [where sdk = counting_sdk and backend_info = "[]" and w = start,
        THEN conjunct2, THEN conjunct2, THEN conjunct1]
    by (simp add: print_backend_info_st_def print_item_st_def defs)
  have 4: "get_gate_errors_st ?g start
     = (Inl KeyError, \<lparr>sdk_state = 2, outcomes = [None, None, Some KeyError], printed = []\<rparr>)"
    using helpers_stop_at_first_exception
      [where backend = ?g and w = start,
        THEN conjunct2, THEN conjunct2, THEN conjunct2, THEN conjunct1]
    by (simp add: get_gate_errors_st_def target_gate_st_def keys_def setitem_def defs)
  have 5: "create_options_st ?sdk 1024 (Some ?m) start
     = (Inl (SdkError ''busy''),
        \<lparr>sdk_state = 2, outcomes = [None, Some (SdkError ''busy'')], printed = []\<rparr>)"
    using helpers_stop_at_first_exception
      [where sdk = ?sdk and nb_shots = 1024 and optional_backend = "Some ?m" and w = start,
        THEN conjunct2, THEN conjunct2, THEN conjunct2, THEN conjunct2]
    by (simp add: create_options_st_def defs)
  from 1 2 3 4 5 show ?thesis by blast
qed

end
